theory Spec2Isabelle
  imports Complex_Main
begin

chapter \<open>The dataset transformation functions of the LifeWatch Italy transformation service\<close>

text \<open>
  A shallow embedding of \<^verbatim>\<open>src/dataset_transformation_functions.py\<close>. Every Python
  function keeps its name. A function that can raise returns \<open>error + 'a\<close>, where
  \<open>Inl e\<close> is the exception \<open>e\<close> leaving the function and \<open>Inr v\<close> is the value
  returned. A \<^verbatim>\<open>try\<close> block is a function of its own (suffix \<open>_try\<close>), and the
  function proper applies the \<^verbatim>\<open>except\<close> clauses to its outcome.
\<close>

section \<open>Python values\<close>

text \<open>
  A cell of a table is a nullable scalar. Python and pandas have three null values:
  \<^verbatim>\<open>None\<close>, the float \<^verbatim>\<open>nan\<close> and \<^verbatim>\<open>pd.NA\<close>; they are kept apart, because
  \<^verbatim>\<open>str\<close> prints them differently and \<^verbatim>\<open>normalize_empty_values\<close> maps them all to
  \<^verbatim>\<open>pd.NA\<close>. Numbers are floats with a finite value or nan (integers are not kept apart
  from floats, and the infinities are left out). Strings are texts over the code points
  below 256.
\<close>

datatype pyfloat = FNaN | FNum real

datatype cell = PyNone | NA | Float pyfloat | Str string

datatype error =
    KeyError string
  | IndexError
  | ValueError
  | TypeError
  | AttributeError
  | FileNotFoundError
  | JSONDecodeError

text \<open>\<^verbatim>\<open>pd.isna(x)\<close>, and \<^verbatim>\<open>pd.notna(x)\<close> (also spelled \<^verbatim>\<open>pd.notnull\<close>), on a scalar.\<close>

fun isna :: "cell \<Rightarrow> bool" where
  "isna PyNone = True"
| "isna NA = True"
| "isna (Float FNaN) = True"
| "isna (Float (FNum r)) = False"
| "isna (Str s) = False"

definition notna :: "cell \<Rightarrow> bool" where
  "notna x = (\<not> isna x)"

section \<open>The Python runtime\<close>

text \<open>
  What the functions take from Python and pandas without the repository defining it:
  \<^verbatim>\<open>float(s)\<close> on a string (\<open>None\<close> is a \<^verbatim>\<open>ValueError\<close>), \<^verbatim>\<open>str(x)\<close> on a finite float,
  \<^verbatim>\<open>pd.to_numeric(..., errors='coerce')\<close> on one string (nan when the string is no
  number), the identifiers drawn by one run of an identifier generator: the
  18-character prefix of the \<open>i\<close>-th \<^verbatim>\<open>uuid.uuid4()\<close>, and the interpreter's limit on the
  digits of an integer read from a string, \<^verbatim>\<open>sys.get_int_max_str_digits()\<close>: 4300 unless
  it was set, and 0 when there is no limit, as in the versions of Python without it.
  Every theorem below holds for all of them.
\<close>

record runtime =
  py_float :: "string \<Rightarrow> pyfloat option"
  str_float :: "real \<Rightarrow> string"
  to_numeric :: "string \<Rightarrow> pyfloat"
  uuid4 :: "nat \<Rightarrow> string"
  max_str_digits :: nat

section \<open>Python strings and integers\<close>

text \<open>\<^verbatim>\<open>s.split(c)\<close> for a separator of one character: the result is never empty.\<close>

fun split_on :: "char \<Rightarrow> string \<Rightarrow> string list" where
  "split_on c [] = [[]]"
| "split_on c (x # xs) =
     (if x = c then [] # split_on c xs
      else (case split_on c xs of
              [] \<Rightarrow> [[x]]
            | p # ps \<Rightarrow> (x # p) # ps))"

text \<open>\<^verbatim>\<open>s.replace(',', '.')\<close>.\<close>

definition replace_comma :: "string \<Rightarrow> string" where
  "replace_comma s = map (\<lambda>c. if c = CHR '','' then CHR ''.'' else c) s"

text \<open>
  \<^verbatim>\<open>int(s)\<close> on a string: whitespace around the text is dropped, then comes an optional
  sign, then decimal digits, where single underscores may stand between two digits.
  Everything else is a \<^verbatim>\<open>ValueError\<close>. The whitespace \<^verbatim>\<open>int\<close> drops is the space, the
  characters from 0x09 to 0x0D and, of the code points from 128 on, the two that are
  spaces, 0x85 and 0xA0; the separators from 0x1C to 0x1F, which \<^verbatim>\<open>str.strip\<close> drops, are
  no whitespace for \<^verbatim>\<open>int\<close>. A text of more than 640 digits, underscores not counted, is
  a \<^verbatim>\<open>ValueError\<close> as well when it has more digits than the interpreter's limit.
\<close>

definition int_space :: "char \<Rightarrow> bool" where
  "int_space c = (c \<in> set [CHR '' '', CHR 0x09, CHR 0x0A, CHR 0x0B, CHR 0x0C, CHR 0x0D,
                              CHR 0x85, CHR 0xA0])"

definition int_strip :: "string \<Rightarrow> string" where
  "int_strip s = rev (dropWhile int_space (rev (dropWhile int_space s)))"

definition is_digit :: "char \<Rightarrow> bool" where
  "is_digit c = (48 \<le> (of_char c :: nat) \<and> (of_char c :: nat) \<le> 57)"

definition digit_val :: "char \<Rightarrow> nat" where
  "digit_val c = of_char c - 48"

definition digit_char :: "nat \<Rightarrow> char" where
  "digit_char n = ''0123456789'' ! n"

fun single_underscores :: "string \<Rightarrow> bool" where
  "single_underscores (a # b # cs) =
     (\<not> (a = CHR ''_'' \<and> b = CHR ''_'') \<and> single_underscores (b # cs))"
| "single_underscores cs = True"

definition digits_ok :: "string \<Rightarrow> bool" where
  "digits_ok s =
     (s \<noteq> [] \<and> list_all (\<lambda>c. is_digit c \<or> c = CHR ''_'') s \<and> is_digit (hd s) \<and>
      is_digit (last s) \<and> single_underscores s)"

definition too_many_digits :: "runtime \<Rightarrow> string \<Rightarrow> bool" where
  "too_many_digits rt s =
     (640 < length (filter is_digit s) \<and> 0 < max_str_digits rt \<and>
      max_str_digits rt < length (filter is_digit s))"

definition digits_value :: "string \<Rightarrow> nat" where
  "digits_value s = foldl (\<lambda>a c. 10 * a + digit_val c) 0 (filter is_digit s)"

definition py_int :: "runtime \<Rightarrow> string \<Rightarrow> error + int" where
  "py_int rt s =
     (case int_strip s of
        [] \<Rightarrow> Inl ValueError
      | c # cs \<Rightarrow>
          if c = CHR ''-'' then
            (if digits_ok cs \<and> \<not> too_many_digits rt cs then Inr (- int (digits_value cs))
             else Inl ValueError)
          else if c = CHR ''+'' then
            (if digits_ok cs \<and> \<not> too_many_digits rt cs then Inr (int (digits_value cs))
             else Inl ValueError)
          else
            (if digits_ok (c # cs) \<and> \<not> too_many_digits rt (c # cs)
             then Inr (int (digits_value (c # cs)))
             else Inl ValueError))"

text \<open>\<^verbatim>\<open>str(n)\<close> for an integer, and the format \<^verbatim>\<open>f"{n:02d}"\<close>.\<close>

fun dec :: "nat \<Rightarrow> string" where
  "dec n = (if n < 10 then [digit_char n] else dec (n div 10) @ [digit_char (n mod 10)])"

definition py_str_int :: "int \<Rightarrow> string" where
  "py_str_int i = (if i < 0 then CHR ''-'' # dec (nat (- i)) else dec (nat i))"

definition fmt_02d :: "int \<Rightarrow> string" where
  "fmt_02d i = (if 0 \<le> i \<and> i < 10 then CHR ''0'' # py_str_int i else py_str_int i)"

section \<open>The date of an event\<close>

text \<open>
  Lines 98 to 107 of \<^verbatim>\<open>fix_event_date\<close>: the year is read as an integer, a year below 40
  is prefixed by 20, a year below 100 by 19, and the date is put together again.
\<close>

definition fix_year :: "int \<Rightarrow> string" where
  "fix_year year =
     (if year < 40 then ''20'' @ fmt_02d year
      else if year < 100 then ''19'' @ fmt_02d year
      else py_str_int year)"

definition rebuild_date ::
  "runtime \<Rightarrow> string \<Rightarrow> string \<Rightarrow> string \<Rightarrow> error + cell" where
  "rebuild_date rt year month day =
     (case py_int rt year of
        Inl e \<Rightarrow> Inl e
      | Inr y \<Rightarrow> Inr (Str (fix_year y @ ''-'' @ month @ ''-'' @ day)))"

text \<open>
  The body of the \<^verbatim>\<open>try\<close> block. \<^verbatim>\<open>"/" in date\<close> raises a \<^verbatim>\<open>TypeError\<close> when
  \<^verbatim>\<open>date\<close> is not a string, \<^verbatim>\<open>parts[2]\<close> an \<^verbatim>\<open>IndexError\<close> when there are fewer than
  three parts, and unpacking \<^verbatim>\<open>parts\<close> into three names a \<^verbatim>\<open>ValueError\<close> unless there
  are exactly three.
\<close>

fun fix_event_date_try :: "runtime \<Rightarrow> cell \<Rightarrow> error + cell" where
  "fix_event_date_try rt (Str date) =
     (if CHR ''/'' \<in> set date then
        (let parts = split_on CHR ''/'' date in
         if length parts < 3 then Inl IndexError
         else if length (parts ! 2) = 4 then rebuild_date rt (parts ! 2) (parts ! 1) (parts ! 0)
         else if length parts \<noteq> 3 then Inl ValueError
         else rebuild_date rt (parts ! 2) (parts ! 1) (parts ! 0))
      else if CHR ''-'' \<in> set date then
        (let parts = split_on CHR ''-'' date in
         if length (hd parts) = 4 then Inr (Str date)
         else if length parts \<noteq> 3 then Inl ValueError
         else rebuild_date rt (parts ! 0) (parts ! 1) (parts ! 2))
      else Inr (Str date))"
| "fix_event_date_try rt date = Inl TypeError"

definition fix_event_date :: "runtime \<Rightarrow> cell \<Rightarrow> error + cell" where
  "fix_event_date rt date =
     (case fix_event_date_try rt date of
        Inl e \<Rightarrow> Inr (Str ''InvalidDate'')
      | Inr d \<Rightarrow> Inr d)"

section \<open>Tables\<close>

text \<open>
  A pandas \<^verbatim>\<open>DataFrame\<close>: its index (the row labels, whose number is \<^verbatim>\<open>len(df)\<close>) and its
  columns in order, each a name with the values of the rows. In a well-formed table the
  names are distinct and every column has one value per row.
\<close>

record table =
  index :: "nat list"
  cols :: "(string \<times> cell list) list"

definition columns :: "table \<Rightarrow> string list" where
  "columns df = map fst (cols df)"

definition len :: "table \<Rightarrow> nat" where
  "len df = length (index df)"

definition wf_table :: "table \<Rightarrow> bool" where
  "wf_table df =
     (distinct (columns df) \<and> list_all (\<lambda>cv. length (snd cv) = len df) (cols df))"

text \<open>
  \<^verbatim>\<open>df[c]\<close> read as a column: a \<^verbatim>\<open>KeyError\<close> when no column has the name. When several
  columns share the name pandas returns a frame, which none of the uses below accepts
  (a \<^verbatim>\<open>ValueError\<close>).
\<close>

definition getitem :: "table \<Rightarrow> string \<Rightarrow> error + cell list" where
  "getitem df c =
     (case filter (\<lambda>cv. fst cv = c) (cols df) of
        [] \<Rightarrow> Inl (KeyError c)
      | [cv] \<Rightarrow> Inr (snd cv)
      | _ \<Rightarrow> Inl ValueError)"

text \<open>\<^verbatim>\<open>df[c] = values\<close>: an existing column is overwritten in place, a new one comes last.\<close>

definition setitem :: "table \<Rightarrow> string \<Rightarrow> cell list \<Rightarrow> table" where
  "setitem df c vs =
     (if c \<in> set (columns df)
      then df\<lparr>cols := map (\<lambda>cv. if fst cv = c then (c, vs) else cv) (cols df)\<rparr>
      else df\<lparr>cols := cols df @ [(c, vs)]\<rparr>)"

text \<open>\<^verbatim>\<open>df[c] = x\<close> for a scalar \<open>x\<close>.\<close>

definition setitem_scalar :: "table \<Rightarrow> string \<Rightarrow> cell \<Rightarrow> table" where
  "setitem_scalar df c x = setitem df c (replicate (len df) x)"

text \<open>\<^verbatim>\<open>df.rename(columns={old: new, ...})\<close>: names that are no column are skipped.\<close>

definition rename :: "table \<Rightarrow> (string \<times> string) list \<Rightarrow> table" where
  "rename df m =
     df\<lparr>cols := map (\<lambda>cv. (case map_of m (fst cv) of None \<Rightarrow> fst cv | Some new \<Rightarrow> new, snd cv))
                    (cols df)\<rparr>"

text \<open>
  \<^verbatim>\<open>df.drop(columns=cs)\<close> raises a \<^verbatim>\<open>KeyError\<close> for a name that is no column;
  with \<^verbatim>\<open>errors='ignore'\<close> such a name is skipped.
\<close>

definition drop_columns_ignore :: "table \<Rightarrow> string list \<Rightarrow> table" where
  "drop_columns_ignore df cs = df\<lparr>cols := filter (\<lambda>cv. fst cv \<notin> set cs) (cols df)\<rparr>"

definition drop_columns :: "table \<Rightarrow> string list \<Rightarrow> error + table" where
  "drop_columns df cs =
     (case filter (\<lambda>c. c \<notin> set (columns df)) cs of
        [] \<Rightarrow> Inr (drop_columns_ignore df cs)
      | c # _ \<Rightarrow> Inl (KeyError c))"

text \<open>A function that can raise, applied to the elements of a list in order.\<close>

fun map_err :: "('a \<Rightarrow> error + 'b) \<Rightarrow> 'a list \<Rightarrow> error + 'b list" where
  "map_err f [] = Inr []"
| "map_err f (x # xs) =
     (case f x of
        Inl e \<Rightarrow> Inl e
      | Inr y \<Rightarrow> (case map_err f xs of Inl e \<Rightarrow> Inl e | Inr ys \<Rightarrow> Inr (y # ys)))"

text \<open>The rows of a column that a boolean mask selects: \<^verbatim>\<open>series[mask]\<close>.\<close>

definition select :: "bool list \<Rightarrow> 'a list \<Rightarrow> 'a list" where
  "select keep xs = map snd (filter fst (zip keep xs))"

definition select_rows :: "bool list \<Rightarrow> table \<Rightarrow> table" where
  "select_rows keep df =
     \<lparr>index = select keep (index df),
      cols = map (\<lambda>cv. (fst cv, select keep (snd cv))) (cols df)\<rparr>"

text \<open>\<^verbatim>\<open>df.dropna(subset=[c])\<close>.\<close>

definition dropna :: "table \<Rightarrow> string \<Rightarrow> error + table" where
  "dropna df c =
     (case getitem df c of
        Inl e \<Rightarrow> Inl e
      | Inr vs \<Rightarrow> Inr (select_rows (map notna vs) df))"

text \<open>
  \<^verbatim>\<open>pd.melt(frame, id_vars, value_vars, ignore_index=False, var_name, value_name)\<close>.
  pandas refuses a \<^verbatim>\<open>value_name\<close> that is a column of the frame. The identifier columns
  are repeated once per melted column, and so is the index; the variable column holds
  the name of the melted column, the value column its values. The new frame is built
  from a dictionary of columns, so an identifier column named \<^verbatim>\<open>var_name\<close> is
  overwritten by the variable column, and the name then stands twice among the columns.
\<close>

definition melt ::
  "table \<Rightarrow> string list \<Rightarrow> string list \<Rightarrow> string \<Rightarrow> string \<Rightarrow> error + table" where
  "melt frame id_vars value_vars var_name value_name =
     (if value_name \<in> set (columns frame) then Inl ValueError
      else
        (case map_err (getitem frame) id_vars of
           Inl e \<Rightarrow> Inl e
         | Inr id_data \<Rightarrow>
             (case map_err (getitem frame) value_vars of
                Inl e \<Rightarrow> Inl e
              | Inr value_data \<Rightarrow>
                  (let k = length value_vars;
                       var_col = concat (map (\<lambda>v. replicate (len frame) (Str v)) value_vars)
                   in Inr \<lparr>index = concat (replicate k (index frame)),
                           cols =
                             map (\<lambda>(c, vs). (c, if c = var_name then var_col
                                                 else concat (replicate k vs)))
                               (zip id_vars id_data)
                             @ [(var_name, var_col), (value_name, concat value_data)]\<rparr>))))"

text \<open>
  \<^verbatim>\<open>left.merge(right, on=key, how="left")\<close>. Every row of \<open>left\<close> is kept, in order, once
  for every row of \<open>right\<close> with the same key, and once with nan in the columns of
  \<open>right\<close> when there is none. A column name of both tables other than the key gets the
  suffix \<^verbatim>\<open>_x\<close> on the left and \<^verbatim>\<open>_y\<close> on the right. The key has to name exactly one
  column on each side, and the suffixes must not make two columns of one side equal.
\<close>

definition positions :: "cell list \<Rightarrow> cell \<Rightarrow> nat list" where
  "positions ks k = filter (\<lambda>j. ks ! j = k) [0..<length ks]"

definition merge_left :: "table \<Rightarrow> table \<Rightarrow> string \<Rightarrow> error + table" where
  "merge_left left right key =
     (case getitem left key of
        Inl e \<Rightarrow> Inl e
      | Inr lk \<Rightarrow>
          (case getitem right key of
             Inl e \<Rightarrow> Inl e
           | Inr rk \<Rightarrow>
               (let pairs = concat (map (\<lambda>i. case positions rk (lk ! i) of
                                                 [] \<Rightarrow> [(i, None)]
                                               | js \<Rightarrow> map (\<lambda>j. (i, Some j)) js)
                                       [0..<length lk]);
                    overlap = (\<lambda>c. c \<noteq> key \<and> c \<in> set (columns left) \<and> c \<in> set (columns right));
                    lcols = map (\<lambda>cv. (if overlap (fst cv) then fst cv @ ''_x'' else fst cv,
                                         map (\<lambda>p. snd cv ! fst p) pairs))
                              (cols left);
                    rcols = map (\<lambda>cv. (if overlap (fst cv) then fst cv @ ''_y'' else fst cv,
                                         map (\<lambda>p. case snd p of
                                                     None \<Rightarrow> Float FNaN
                                                   | Some j \<Rightarrow> snd cv ! j) pairs))
                              (filter (\<lambda>cv. fst cv \<noteq> key) (cols right))
                in if \<not> distinct (map fst lcols) \<or> \<not> distinct (map fst rcols)
                   then Inl ValueError
                   else Inr \<lparr>index = [0..<length pairs], cols = lcols @ rcols\<rparr>)))"

text \<open>
  \<^verbatim>\<open>pd.concat([a, b], ignore_index=True)\<close>: the rows of \<open>a\<close>, then the rows of \<open>b\<close>, under
  the columns of \<open>a\<close> followed by the further columns of \<open>b\<close>; a column a table lacks is
  nan in its rows. pandas refuses a table with two columns of one name.
\<close>

definition column_or_nan :: "table \<Rightarrow> string \<Rightarrow> cell list" where
  "column_or_nan df c =
     (case map_of (cols df) c of
        None \<Rightarrow> replicate (len df) (Float FNaN)
      | Some vs \<Rightarrow> vs)"

definition pd_concat :: "table \<Rightarrow> table \<Rightarrow> error + table" where
  "pd_concat a b =
     (if \<not> distinct (columns a) \<or> \<not> distinct (columns b) then Inl ValueError
      else Inr \<lparr>index = [0..<len a + len b],
                cols = map (\<lambda>c. (c, column_or_nan a c @ column_or_nan b c))
                         (columns a @ filter (\<lambda>c. c \<notin> set (columns a)) (columns b))\<rparr>)"

section \<open>Values in a column\<close>

text \<open>\<^verbatim>\<open>str(x)\<close> on a cell.\<close>

fun py_str :: "runtime \<Rightarrow> cell \<Rightarrow> string" where
  "py_str rt PyNone = ''None''"
| "py_str rt NA = ''<NA>''"
| "py_str rt (Float FNaN) = ''nan''"
| "py_str rt (Float (FNum r)) = str_float rt r"
| "py_str rt (Str s) = s"

text \<open>
  \<^verbatim>\<open>x == ""\<close> used as a condition: \<^verbatim>\<open>pd.NA == ""\<close> is \<^verbatim>\<open>pd.NA\<close>, whose truth value is a
  \<^verbatim>\<open>TypeError\<close>.
\<close>

fun eq_empty :: "cell \<Rightarrow> error + bool" where
  "eq_empty (Str s) = Inr (s = [])"
| "eq_empty NA = Inl TypeError"
| "eq_empty x = Inr False"

text \<open>
  What pandas makes of the results of \<^verbatim>\<open>Series.apply\<close>: when they are floats and
  \<^verbatim>\<open>None\<close>s with at least one float, the column is a float column and every \<^verbatim>\<open>None\<close> in
  it is nan; all other results stay as they are.
\<close>

fun is_float :: "cell \<Rightarrow> bool" where
  "is_float (Float f) = True"
| "is_float x = False"

definition infer_objects :: "cell list \<Rightarrow> cell list" where
  "infer_objects xs =
     (if list_ex is_float xs \<and> list_all (\<lambda>x. is_float x \<or> x = PyNone) xs
      then map (\<lambda>x. if x = PyNone then Float FNaN else x) xs
      else xs)"

definition series_apply :: "(cell \<Rightarrow> error + cell) \<Rightarrow> cell list \<Rightarrow> error + cell list" where
  "series_apply f xs =
     (case map_err f xs of
        Inl e \<Rightarrow> Inl e
      | Inr ys \<Rightarrow> Inr (infer_objects ys))"

text \<open>\<^verbatim>\<open>pd.to_numeric(series, errors='coerce')\<close>, value by value.\<close>

fun to_numeric_cell :: "runtime \<Rightarrow> cell \<Rightarrow> pyfloat" where
  "to_numeric_cell rt (Float f) = f"
| "to_numeric_cell rt (Str s) = to_numeric rt s"
| "to_numeric_cell rt x = FNaN"

definition pd_to_numeric :: "runtime \<Rightarrow> cell list \<Rightarrow> cell list" where
  "pd_to_numeric rt xs = map (\<lambda>x. Float (to_numeric_cell rt x)) xs"

section \<open>Coordinates\<close>

text \<open>
  The function applied to a coordinate (\<^verbatim>\<open>process_coordinates\<close>, lines 180 and 185):
  \<^verbatim>\<open>float(str(x).replace(',', '.')) if pd.notnull(x) else None\<close>.
\<close>

definition coordinate_to_float :: "runtime \<Rightarrow> cell \<Rightarrow> error + cell" where
  "coordinate_to_float rt x =
     (if notna x then
        (case py_float rt (replace_comma (py_str rt x)) of
           None \<Rightarrow> Inl ValueError
         | Some f \<Rightarrow> Inr (Float f))
      else Inr PyNone)"

text \<open>
  \<^verbatim>\<open>create_point\<close> (lines 189 to 197), with \<^verbatim>\<open>no_coordinate = pd.NA\<close>,
  \<^verbatim>\<open>no_lat = "NaN, "\<close> and \<^verbatim>\<open>no_long = ", NaN"\<close>.
\<close>

definition create_point :: "runtime \<Rightarrow> cell \<Rightarrow> cell \<Rightarrow> error + cell" where
  "create_point rt lat lon =
     (case eq_empty lat of
        Inl e \<Rightarrow> Inl e
      | Inr lat_empty \<Rightarrow>
          (case (if lat_empty then eq_empty lon else Inr False) of
             Inl e \<Rightarrow> Inl e
           | Inr both_empty \<Rightarrow>
               if both_empty then Inr NA
               else if lat_empty then Inr (Str (''NaN, '' @ py_str rt lon))
               else
                 (case eq_empty lon of
                    Inl e \<Rightarrow> Inl e
                  | Inr lon_empty \<Rightarrow>
                      if lon_empty then Inr (Str (py_str rt lat @ '', NaN''))
                      else Inr (Str (py_str rt lat @ '', '' @ py_str rt lon)))))"

text \<open>Lines 178 to 186: a coordinate column, when the table has it, is converted.\<close>

definition convert_coordinates :: "runtime \<Rightarrow> string \<Rightarrow> table \<Rightarrow> error + table" where
  "convert_coordinates rt c df =
     (if c \<in> set (columns df) then
        (case getitem df c of
           Inl e \<Rightarrow> Inl e
         | Inr vs \<Rightarrow>
             (case series_apply (coordinate_to_float rt) vs of
                Inl e \<Rightarrow> Inl e
              | Inr ws \<Rightarrow> Inr (setitem df c ws)))
      else Inr df)"

text \<open>
  Line 199: \<^verbatim>\<open>df.apply(lambda row: create_point(row['decimalLatitude'],
  row['decimalLongitude']), axis=1)\<close>. Reading a column the row lacks is a \<^verbatim>\<open>KeyError\<close>
  (pandas does not call the function on the rows of a table without rows; that case is
  not set apart here).
\<close>

definition point_of_rows :: "runtime \<Rightarrow> table \<Rightarrow> error + cell list" where
  "point_of_rows rt df =
     (case getitem df ''decimalLatitude'' of
        Inl e \<Rightarrow> Inl e
      | Inr lats \<Rightarrow>
          (case getitem df ''decimalLongitude'' of
             Inl e \<Rightarrow> Inl e
           | Inr lons \<Rightarrow> map_err (\<lambda>(lat, lon). create_point rt lat lon) (zip lats lons)))"

text \<open>Lines 210 to 216. The \<^verbatim>\<open>except\<close> clause only logs.\<close>

fun neg_abs :: "pyfloat \<Rightarrow> pyfloat" where
  "neg_abs FNaN = FNaN"
| "neg_abs (FNum r) = FNum (- \<bar>r\<bar>)"

definition negate_depth :: "runtime \<Rightarrow> table \<Rightarrow> table" where
  "negate_depth rt df =
     (if ''depth'' \<in> set (columns df) then
        (case getitem df ''depth'' of
           Inl e \<Rightarrow> df
         | Inr vs \<Rightarrow> setitem df ''depth'' (map (\<lambda>x. Float (neg_abs (to_numeric_cell rt x))) vs))
      else df)"

definition process_coordinates :: "runtime \<Rightarrow> table \<Rightarrow> error + table" where
  "process_coordinates rt df =
     (case convert_coordinates rt ''decimalLatitude'' df of
        Inl e \<Rightarrow> Inl e
      | Inr df1 \<Rightarrow>
          (case
             (if ''decimalLongitude'' \<in> set (columns df1) then
                (case convert_coordinates rt ''decimalLongitude'' df1 of
                   Inl e \<Rightarrow> Inl e
                 | Inr df2 \<Rightarrow>
                     (case point_of_rows rt df2 of
                        Inl e \<Rightarrow> Inl e
                      | Inr points \<Rightarrow> Inr (setitem df2 ''point'' points)))
              else if ''locality'' \<in> set (columns df1) then
                (case getitem df1 ''locality'' of
                   Inl e \<Rightarrow> Inl e
                 | Inr vs \<Rightarrow> Inr (setitem df1 ''point'' vs))
              else Inr (setitem_scalar df1 ''point'' NA))
           of
             Inl e \<Rightarrow> Inl e
           | Inr df3 \<Rightarrow> Inr (negate_depth rt df3)))"

section \<open>Identifiers\<close>

text \<open>
  \<^verbatim>\<open>feature_of_interest_id_generator\<close> assigns the column in place and returns the table
  it was given, so the table returned is also the caller's table after the call. The
  \<^verbatim>\<open>ValueError\<close> of line 227 is raised before anything is assigned.
\<close>

definition new_ids :: "runtime \<Rightarrow> table \<Rightarrow> cell list" where
  "new_ids rt df = map (\<lambda>i. Str (uuid4 rt i)) [0..<len df]"

definition feature_of_interest_id_generator_try ::
  "runtime \<Rightarrow> table \<Rightarrow> string \<Rightarrow> error + table" where
  "feature_of_interest_id_generator_try rt df column_name =
     (if column_name \<in> set (columns df) then Inl ValueError
      else Inr (setitem df column_name (new_ids rt df)))"

definition feature_of_interest_id_generator ::
  "runtime \<Rightarrow> table \<Rightarrow> string \<Rightarrow> error + table" where
  "feature_of_interest_id_generator rt df column_name =
     (case feature_of_interest_id_generator_try rt df column_name of
        Inl e \<Rightarrow> Inr df
      | Inr df' \<Rightarrow> Inr df')"

definition observation_id_generator_try ::
  "runtime \<Rightarrow> table \<Rightarrow> string \<Rightarrow> error + table" where
  "observation_id_generator_try rt df column_name =
     (if column_name \<in> set (columns df) then Inl ValueError
      else Inr (setitem df column_name (new_ids rt df)))"

definition observation_id_generator ::
  "runtime \<Rightarrow> table \<Rightarrow> string \<Rightarrow> error + table" where
  "observation_id_generator rt df column_name =
     (case observation_id_generator_try rt df column_name of
        Inl e \<Rightarrow> Inr df
      | Inr df' \<Rightarrow> Inr df')"

section \<open>Measurement values\<close>

text \<open>
  Line 254: \<^verbatim>\<open>df["measurementValue"].replace(invalid_values, pd.NA)\<close>. \<^verbatim>\<open>None\<close> in the
  list stands for every null value.
\<close>

definition invalid_values :: "cell list" where
  "invalid_values =
     [PyNone, Str ''NaN'', Str ''NAN'', Str ''none'', Str ''empty'', Str ''Null'', Str []]"

definition replace_invalid :: "cell \<Rightarrow> cell" where
  "replace_invalid x = (if isna x \<or> x \<in> set invalid_values then NA else x)"

text \<open>
  The \<^verbatim>\<open>try\<close> block of \<^verbatim>\<open>clean_and_infer_measurement_values\<close>. It can only raise where it
  first reads the column \<^verbatim>\<open>measurementValue\<close>, before the table is changed.
\<close>

definition clean_and_infer_measurement_values_try ::
  "runtime \<Rightarrow> table \<Rightarrow> bool \<Rightarrow> error + table" where
  "clean_and_infer_measurement_values_try rt df keep_strings =
     (case getitem df ''measurementValue'' of
        Inl e \<Rightarrow> Inl e
      | Inr vs \<Rightarrow>
          (let df1 = setitem df ''measurementValue'' (map replace_invalid vs) in
           case getitem df1 ''measurementValue'' of
             Inl e \<Rightarrow> Inl e
           | Inr mvs \<Rightarrow>
               (let numeric_series = pd_to_numeric rt mvs in
                if \<not> keep_strings then
                  (let keep = map notna numeric_series;
                       cleaned_df = select_rows keep df1
                   in Inr (setitem cleaned_df ''measurementValue'' (select keep numeric_series)))
                else
                  (let df2 = setitem df1 ''numericValue'' numeric_series in
                   case getitem df2 ''numericValue'' of
                     Inl e \<Rightarrow> Inl e
                   | Inr nums \<Rightarrow>
                       (case getitem df2 ''measurementValue'' of
                          Inl e \<Rightarrow> Inl e
                        | Inr mvs2 \<Rightarrow>
                            (let df3 = setitem df2 ''measurementValue_cleaned''
                                         (map (\<lambda>(num, mv). if notna num then num else mv)
                                            (zip nums mvs2))
                             in case dropna df3 ''measurementValue_cleaned'' of
                                  Inl e \<Rightarrow> Inl e
                                | Inr cleaned_df \<Rightarrow>
                                    (case getitem cleaned_df ''measurementValue_cleaned'' of
                                       Inl e \<Rightarrow> Inl e
                                     | Inr cleaned \<Rightarrow>
                                         drop_columns
                                           (setitem cleaned_df ''measurementValue'' cleaned)
                                           [''numericValue'', ''measurementValue_cleaned''])))))))"

definition clean_and_infer_measurement_values ::
  "runtime \<Rightarrow> table \<Rightarrow> bool \<Rightarrow> error + table" where
  "clean_and_infer_measurement_values rt df keep_strings =
     (case clean_and_infer_measurement_values_try rt df keep_strings of
        Inl e \<Rightarrow> Inr df
      | Inr cleaned_df \<Rightarrow> Inr cleaned_df)"

section \<open>Measurement attributes\<close>

text \<open>
  A JSON file as the function finds it: absent, not JSON, or loaded. The trait dictionary
  maps a column name to a list of entries, each a dictionary of fields.
\<close>

datatype 'a json_file = NoFile | NotJson | Json 'a

type_synonym trait_dict = "(string \<times> (string \<times> cell) list list) list"

text \<open>
  Lines 356 to 363: one row of \<^verbatim>\<open>trait_list\<close>. \<^verbatim>\<open>values[0]\<close> is an \<^verbatim>\<open>IndexError\<close> on an
  empty list, and a field the entry lacks is a \<^verbatim>\<open>KeyError\<close>.
\<close>

definition field :: "(string \<times> cell) list \<Rightarrow> string \<Rightarrow> error + cell" where
  "field entry k = (case map_of entry k of None \<Rightarrow> Inl (KeyError k) | Some v \<Rightarrow> Inr v)"

definition trait_row :: "string \<times> (string \<times> cell) list list \<Rightarrow> error + cell list" where
  "trait_row kv =
     (case snd kv of
        [] \<Rightarrow> Inl IndexError
      | entry # _ \<Rightarrow>
          (case map_err (field entry) [''label'', ''definition'', ''unit'', ''type''] of
             Inl e \<Rightarrow> Inl e
           | Inr fs \<Rightarrow> Inr (Str (fst kv) # fs)))"

text \<open>Line 365: \<^verbatim>\<open>pd.DataFrame(trait_list)\<close>; without rows the frame has no columns.\<close>

definition trait_columns :: "string list" where
  "trait_columns =
     [''propertyName'', ''propertyLabel'', ''propertyDefinition'', ''measurementUnit'',
      ''propertyUrl'']"

definition trait_frame :: "cell list list \<Rightarrow> table" where
  "trait_frame trait_list =
     (if trait_list = [] then \<lparr>index = [], cols = []\<rparr>
      else \<lparr>index = [0..<length trait_list],
             cols = map (\<lambda>(i, c). (c, map (\<lambda>row. row ! i) trait_list))
                      (zip [0..<5] trait_columns)\<rparr>)"

text \<open>
  The \<^verbatim>\<open>try\<close> block of \<^verbatim>\<open>measurement_attribute_preparation\<close>. An exception comes with
  the table the variable \<^verbatim>\<open>df\<close> is bound to when it is raised, which is what every
  \<^verbatim>\<open>except\<close> clause returns.
\<close>

definition measurement_attribute_preparation_try ::
  "runtime \<Rightarrow> trait_dict json_file \<Rightarrow> table \<Rightarrow> (error \<times> table) + table" where
  "measurement_attribute_preparation_try rt trait_file df =
     (case trait_file of
        NoFile \<Rightarrow> Inl (FileNotFoundError, df)
      | NotJson \<Rightarrow> Inl (JSONDecodeError, df)
      | Json trait_dict \<Rightarrow>
          (let measurement_list = filter (\<lambda>c. c \<in> set (map fst trait_dict)) (columns df);
               non_measurement_list = filter (\<lambda>c. c \<notin> set (map fst trait_dict)) (columns df)
           in
           if measurement_list = [] then
             (if ''measurementValue'' \<in> set non_measurement_list then
                (case observation_id_generator rt df ''observationId'' of
                   Inl e \<Rightarrow> Inl (e, df)
                 | Inr df1 \<Rightarrow>
                     (let df2 = rename df1 [(''measurementType'', ''propertyName''),
                                            (''measurementTypeID'', ''propertyUrl'')]
                      in case getitem df2 ''propertyName'' of
                           Inl e \<Rightarrow> Inl (e, df2)
                         | Inr names \<Rightarrow>
                             Inr (setitem_scalar (setitem df2 ''propertyLabel'' names)
                                    ''propertyDefinition'' NA)))
              else
                (case observation_id_generator rt df ''observationId'' of
                   Inl e \<Rightarrow> Inl (e, df)
                 | Inr df1 \<Rightarrow>
                     Inr (foldl (\<lambda>d c. setitem_scalar d c NA) df1
                            [''propertyName'', ''measurementValue'', ''propertyLabel'',
                             ''propertyDefinition'', ''measurementUnit'', ''propertyUrl''])))
           else
             (case melt df non_measurement_list measurement_list
                     ''propertyName'' ''measurementValue'' of
                Inl e \<Rightarrow> Inl (e, df)
              | Inr melted_df \<Rightarrow>
                  (case map_err trait_row trait_dict of
                     Inl e \<Rightarrow> Inl (e, df)
                   | Inr trait_list \<Rightarrow>
                       (case merge_left melted_df (trait_frame trait_list) ''propertyName'' of
                          Inl e \<Rightarrow> Inl (e, df)
                        | Inr merged_df \<Rightarrow>
                            (case clean_and_infer_measurement_values rt merged_df True of
                               Inl e \<Rightarrow> Inl (e, df)
                             | Inr clean_df \<Rightarrow>
                                 (case observation_id_generator rt clean_df ''observationId'' of
                                    Inl e \<Rightarrow> Inl (e, df)
                                  | Inr df' \<Rightarrow> Inr df')))))))"

definition measurement_attribute_preparation ::
  "runtime \<Rightarrow> trait_dict json_file \<Rightarrow> table \<Rightarrow> error + table" where
  "measurement_attribute_preparation rt trait_file df =
     (case measurement_attribute_preparation_try rt trait_file df of
        Inl (e, df') \<Rightarrow> Inr df'
      | Inr df' \<Rightarrow> Inr df')"

section \<open>Taxonomy\<close>

text \<open>
  \<^verbatim>\<open>series.str.lower()\<close>: an \<^verbatim>\<open>AttributeError\<close> on a column of numbers, which is a
  column of floats or a column whose values other than the null ones are numbers, and
  there is one; otherwise a string is put in lower case, a null value stays as it is
  and a number becomes nan. Below 256 the capital letters are those from 0x41 to 0x5A
  and from 0xC0 to 0xDE without the sign 0xD7.
\<close>

definition lower_char :: "char \<Rightarrow> char" where
  "lower_char c =
     (if 65 \<le> (of_char c :: nat) \<and> (of_char c :: nat) \<le> 90 \<or>
         192 \<le> (of_char c :: nat) \<and> (of_char c :: nat) \<le> 222 \<and> (of_char c :: nat) \<noteq> 215
      then char_of (of_char c + 32 :: nat)
      else c)"

fun lower_cell :: "cell \<Rightarrow> cell" where
  "lower_cell (Str s) = Str (map lower_char s)"
| "lower_cell (Float f) = Float FNaN"
| "lower_cell x = x"

definition str_lower :: "cell list \<Rightarrow> error + cell list" where
  "str_lower xs =
     (if xs \<noteq> [] \<and>
         (list_all is_float xs \<or>
          list_ex (\<lambda>x. \<not> isna x) xs \<and> list_all (\<lambda>x. isna x \<or> is_float x) xs)
      then Inl AttributeError
      else Inr (map lower_cell xs))"

text \<open>
  The \<^verbatim>\<open>try\<close> block of \<^verbatim>\<open>taxonomy_attribution_preparation\<close>. No \<^verbatim>\<open>except\<close> clause returns
  anything, so after an exception the function returns \<^verbatim>\<open>None\<close>.
\<close>

definition taxonomy_attribution_preparation_try ::
  "string list json_file \<Rightarrow> table \<Rightarrow> error + table" where
  "taxonomy_attribution_preparation_try taxonomy_file df =
     (case taxonomy_file of
        NoFile \<Rightarrow> Inl FileNotFoundError
      | NotJson \<Rightarrow> Inl JSONDecodeError
      | Json taxonomy_list \<Rightarrow>
          if ''taxonRank'' \<in> set (columns df) then
            (case getitem df ''taxonRank'' of
               Inl e \<Rightarrow> Inl e
             | Inr ranks \<Rightarrow>
                 (case str_lower ranks of
                    Inl e \<Rightarrow> Inl e
                  | Inr lowered \<Rightarrow>
                      (let df1 = setitem df ''taxonRank'' lowered in
                       if ''acceptedNameUsage'' \<in> set (columns df1) then
                         (case getitem df1 ''acceptedNameUsage'' of
                            Inl e \<Rightarrow> Inl e
                          | Inr names \<Rightarrow>
                              (let df2 = setitem df1 ''taxon'' names;
                                   taxonomy_columns =
                                     filter (\<lambda>c. c \<in> set taxonomy_list) (columns df2);
                                   non_taxonomy_columns =
                                     filter (\<lambda>c. c \<notin> set taxonomy_list) (columns df2)
                               in
                               if taxonomy_columns = [] then Inr df2
                               else
                                 (case melt df2 non_taxonomy_columns taxonomy_columns
                                         ''temp_taxonRank'' ''temp_taxon'' of
                                    Inl e \<Rightarrow> Inl e
                                  | Inr melted_df \<Rightarrow>
                                      (case drop_columns melted_df [''taxon'', ''taxonRank''] of
                                         Inl e \<Rightarrow> Inl e
                                       | Inr melted_df1 \<Rightarrow>
                                           (let melted_df2 =
                                                  rename melted_df1
                                                    [(''temp_taxonRank'', ''taxonRank''),
                                                     (''temp_taxon'', ''taxon'')]
                                            in case drop_columns df2 taxonomy_columns of
                                                 Inl e \<Rightarrow> Inl e
                                               | Inr df3 \<Rightarrow> pd_concat df3 melted_df2)))))
                       else Inl ValueError)))
          else
            (let taxonomy_columns = filter (\<lambda>c. c \<in> set taxonomy_list) (columns df);
                 non_taxonomy_columns = filter (\<lambda>c. c \<notin> set taxonomy_list) (columns df)
             in
             if taxonomy_columns = [] then
               Inr (setitem_scalar (setitem_scalar df ''taxonRank'' NA) ''taxon'' NA)
             else melt df non_taxonomy_columns taxonomy_columns ''taxonRank'' ''taxon''))"

definition taxonomy_attribution_preparation ::
  "string list json_file \<Rightarrow> table \<Rightarrow> error + table option" where
  "taxonomy_attribution_preparation taxonomy_file df =
     (case taxonomy_attribution_preparation_try taxonomy_file df of
        Inl e \<Rightarrow> Inr None
      | Inr df' \<Rightarrow> Inr (Some df'))"

section \<open>Null values\<close>

text \<open>
  \<^verbatim>\<open>normalize_empty_values\<close>: \<^verbatim>\<open>df.map\<close> applies
  \<^verbatim>\<open>lambda x: pd.NA if pd.isna(x) or x == "" else x\<close> to every cell. In the workflow the
  argument is what \<^verbatim>\<open>taxonomy_attribution_preparation\<close> returned, which can be \<^verbatim>\<open>None\<close>;
  then \<^verbatim>\<open>df.map\<close> is an \<^verbatim>\<open>AttributeError\<close>.
\<close>

definition normalize_cell :: "cell \<Rightarrow> error + cell" where
  "normalize_cell x =
     (if isna x then Inr NA
      else (case eq_empty x of
              Inl e \<Rightarrow> Inl e
            | Inr is_empty \<Rightarrow> Inr (if is_empty then NA else x)))"

definition frame_map :: "(cell \<Rightarrow> error + cell) \<Rightarrow> table \<Rightarrow> error + table" where
  "frame_map f df =
     (case map_err (\<lambda>cv. case map_err f (snd cv) of
                            Inl e \<Rightarrow> Inl e
                          | Inr ws \<Rightarrow> Inr (fst cv, ws)) (cols df) of
        Inl e \<Rightarrow> Inl e
      | Inr cs \<Rightarrow> Inr (df\<lparr>cols := cs\<rparr>))"

definition normalize_empty_values_try :: "table option \<Rightarrow> error + table option" where
  "normalize_empty_values_try df =
     (case df of
        None \<Rightarrow> Inl AttributeError
      | Some t \<Rightarrow> (case frame_map normalize_cell t of
                     Inl e \<Rightarrow> Inl e
                   | Inr t' \<Rightarrow> Inr (Some t')))"

definition normalize_empty_values :: "table option \<Rightarrow> error + table option" where
  "normalize_empty_values df =
     (case normalize_empty_values_try df of
        Inl e \<Rightarrow> Inr df
      | Inr df' \<Rightarrow> Inr df')"

section \<open>Example inputs\<close>

text \<open>
  A runtime that agrees with Python on the few values the examples below use, and the
  tables of the examples.
\<close>

definition example_runtime :: runtime where
  "example_runtime =
     \<lparr>py_float = map_of [(''40.5'', FNum 40.5), (''-3.7'', FNum (- 3.7)), (''nan'', FNaN)],
      str_float = (\<lambda>r. if r = 40.5 then ''40.5'' else if r = - 3.7 then ''-3.7'' else ''0.0''),
      to_numeric = (\<lambda>s. case map_of [(''12'', FNum 12), (''7.5'', FNum 7.5)] s of
                           None \<Rightarrow> FNaN
                         | Some f \<Rightarrow> f),
      uuid4 = (\<lambda>i. ''0f8fad5b-d9cb-4'' @
                     [digit_char (i div 100 mod 10), digit_char (i div 10 mod 10),
                      digit_char (i mod 10)]),
      max_str_digits = 4300\<rparr>"

definition null_table :: table where
  "null_table =
     \<lparr>index = [0, 1],
      cols = [(''locality'', [Str [], Str ''none'']),
              (''depth'', [Float FNaN, Float (FNum 3)]),
              (''remarks'', [PyNone, NA])]\<rparr>"

definition null_table_normalized :: table where
  "null_table_normalized =
     \<lparr>index = [0, 1],
      cols = [(''locality'', [NA, Str ''none'']),
              (''depth'', [NA, Float (FNum 3)]),
              (''remarks'', [NA, NA])]\<rparr>"


definition identified_table :: table where
  "identified_table =
     \<lparr>index = [0, 1],
      cols = [(''site'', [Str ''A'', Str ''B'']),
              (''featureOfInterestId'', [Str ''f-1'', Str ''f-2''])]\<rparr>"

definition ranked_table :: table where
  "ranked_table =
     \<lparr>index = [0, 1],
      cols = [(''scientificName'', [Str ''Aa bb'', Str ''Cc dd'']),
              (''taxonRank'', [Str ''Species'', Str ''Species''])]\<rparr>"

definition example_traits :: trait_dict where
  "example_traits =
     [(''height'', [[(''label'', Str ''Height''), (''definition'', Str ''how tall''),
                     (''unit'', Str ''cm''), (''type'', Str ''http://example.org/height'')]]),
      (''colour'', [[(''label'', Str ''Colour''), (''definition'', PyNone),
                     (''unit'', PyNone), (''type'', Str ''http://example.org/colour'')]])]"

definition measured_table :: table where
  "measured_table =
     \<lparr>index = [0, 1],
      cols = [(''site'', [Str ''A'', Str ''B'']),
              (''height'', [Str ''12'', Float FNaN])]\<rparr>"

definition remeasured_table :: table where
  "remeasured_table =
     \<lparr>index = [0, 1],
      cols = [(''site'', [Str ''A'', Str ''B'']),
              (''height'', [Str ''12'', Float FNaN]),
              (''measurementValue'', [Str ''1'', Str ''2''])]\<rparr>"


definition coordinates_table :: table where
  "coordinates_table =
     \<lparr>index = [0, 1, 2, 3],
      cols = [(''decimalLatitude'', [Str ''40,5'', Float FNaN, Str ''40,5'', Float FNaN]),
              (''decimalLongitude'', [Str ''-3,7'', Str ''-3,7'', Float FNaN, Float FNaN])]\<rparr>"




definition example_ranks :: "string list" where
  "example_ranks = [''kingdom'', ''family'', ''genus'']"

definition taxa_table :: table where
  "taxa_table =
     \<lparr>index = [0, 1],
      cols = [(''site'', [Str ''A'', Str ''B'']),
              (''family'', [Str ''Poaceae'', Str ''Fagaceae'']),
              (''genus'', [Str ''Poa'', Str ''Fagus''])]\<rparr>"

definition named_table :: table where
  "named_table =
     \<lparr>index = [0, 1],
      cols = [(''acceptedNameUsage'', [Str ''Poa annua'', Str ''Fagus'']),
              (''taxonRank'', [Str ''Species'', Str ''Genus'']),
              (''family'', [Str ''Poaceae'', Str ''Fagaceae''])]\<rparr>"

chapter \<open>Properties\<close>

section \<open>Strings\<close>

lemma split_on_not_Nil: "split_on c s \<noteq> []"
  by (induction s) (auto split: list.splits)

lemma split_on_no_sep: "c \<notin> set s \<Longrightarrow> split_on c s = [s]"
  by (induction s) auto

lemma split_on_append:
  "c \<notin> set a \<Longrightarrow> split_on c (a @ c # b) = a # split_on c b"
  by (induction a) auto


section \<open>Decimal numerals\<close>

declare dec.simps [simp del]

lemma dec_small: "n < 10 \<Longrightarrow> dec n = [digit_char n]"
  by (subst dec.simps) simp

lemma dec_step: "10 \<le> n \<Longrightarrow> dec n = dec (n div 10) @ [digit_char (n mod 10)]"
  by (subst dec.simps) simp

lemma dec_two:
  "n < 100 \<Longrightarrow> 10 \<le> n \<Longrightarrow> dec n = [digit_char (n div 10), digit_char (n mod 10)]"
  by (simp add: dec_step dec_small)

lemma div_mod_thousands:
  fixes c d y :: nat
  shows "(c * 1000 + d * 100 + y) div 10 = c * 100 + d * 10 + y div 10"
    and "(c * 1000 + d * 100 + y) mod 10 = y mod 10"
proof -
  have "c * 1000 + d * 100 + y = 10 * (c * 100 + d * 10) + y"
    by simp
  then show "(c * 1000 + d * 100 + y) mod 10 = y mod 10"
    by (simp only: mod_mult_self4)
  show "(c * 1000 + d * 100 + y) div 10 = c * 100 + d * 10 + y div 10"
    by simp
qed

lemma div_mod_hundreds:
  fixes c d y :: nat
  assumes "y < 100"
  shows "(c * 100 + d * 10 + y div 10) div 10 = c * 10 + d"
    and "(c * 100 + d * 10 + y div 10) mod 10 = y div 10"
proof -
  have "y div 10 < 10"
    using assms by simp
  moreover have "c * 100 + d * 10 + y div 10 = 10 * (c * 10 + d) + y div 10"
    by simp
  ultimately show "(c * 100 + d * 10 + y div 10) mod 10 = y div 10"
    by (simp only: mod_mult_self4 mod_less)
  show "(c * 100 + d * 10 + y div 10) div 10 = c * 10 + d"
    using assms by simp
qed

lemma dec_century:
  assumes "y < 100" "c < 10" "d < 10" "0 < c"
  shows "dec (c * 1000 + d * 100 + y) =
    [digit_char c, digit_char d, digit_char (y div 10), digit_char (y mod 10)]"
proof -
  have "dec (c * 1000 + d * 100 + y) =
      dec (c * 100 + d * 10 + y div 10) @ [digit_char (y mod 10)]"
    using assms by (simp add: dec_step div_mod_thousands)
  also have "dec (c * 100 + d * 10 + y div 10) = dec (c * 10 + d) @ [digit_char (y div 10)]"
    using assms by (simp add: dec_step div_mod_hundreds)
  also have "dec (c * 10 + d) = [digit_char c, digit_char d]"
    using assms by (simp add: dec_step dec_small)
  finally show ?thesis
    by simp
qed

lemma fmt_02d_two:
  "0 \<le> y \<Longrightarrow> y < 100 \<Longrightarrow> fmt_02d y = [digit_char (nat y div 10), digit_char (nat y mod 10)]"
  by (cases "y < 10") (auto simp: fmt_02d_def py_str_int_def dec_small dec_two digit_char_def)

lemma fix_year_20:
  assumes "0 \<le> y" "y < 40"
  shows "fix_year y = py_str_int (2000 + y)"
proof -
  have "nat (2000 + y) = 2 * 1000 + 0 * 100 + nat y"
    using assms by simp
  then have "dec (nat (2000 + y)) =
      [digit_char 2, digit_char 0, digit_char (nat y div 10), digit_char (nat y mod 10)]"
    using dec_century [of "nat y" 2 0] assms by simp
  then show ?thesis
    using assms by (simp add: fix_year_def fmt_02d_two py_str_int_def digit_char_def)
qed

lemma fix_year_19:
  assumes "40 \<le> y" "y < 100"
  shows "fix_year y = py_str_int (1900 + y)"
proof -
  have "nat (1900 + y) = 1 * 1000 + 9 * 100 + nat y"
    using assms by simp
  then have "dec (nat (1900 + y)) =
      [digit_char 1, digit_char 9, digit_char (nat y div 10), digit_char (nat y mod 10)]"
    using dec_century [of "nat y" 1 9] assms by simp
  then show ?thesis
    using assms by (simp add: fix_year_def fmt_02d_two py_str_int_def digit_char_def)
qed

lemma fix_year_keep: "100 \<le> y \<Longrightarrow> fix_year y = py_str_int y"
  by (simp add: fix_year_def)

lemma fix_year_cases:
  "0 \<le> y \<Longrightarrow>
   fix_year y =
     py_str_int (if y < 40 then 2000 + y else if y < 100 then 1900 + y else y)"
  by (simp add: fix_year_20 fix_year_19 fix_year_keep)

section \<open>The date of an event\<close>

lemma split_on_three:
  "c \<notin> set a \<Longrightarrow> c \<notin> set b \<Longrightarrow> c \<notin> set d \<Longrightarrow>
   split_on c (a @ c # b @ c # d) = [a, b, d]"
  by (simp add: split_on_append split_on_no_sep)

text \<open>
  A text of digits only is read as its value, unless it has more than 640 digits and
  more digits than the interpreter allows.
\<close>

lemma digit_not_space:
  "is_digit c \<Longrightarrow> \<not> int_space c \<and> c \<noteq> CHR ''-'' \<and> c \<noteq> CHR ''+'' \<and> c \<noteq> CHR ''_''"
  by (auto simp: is_digit_def int_space_def)

lemma int_strip_digits:
  assumes "s \<noteq> []" "is_digit (hd s)" "is_digit (last s)"
  shows "int_strip s = s"
proof -
  have "dropWhile int_space s = s"
    using assms(1,2) by (cases s) (simp_all add: digit_not_space)
  moreover have "dropWhile int_space (rev s) = rev s"
    using assms(1,3) by (cases "rev s") (simp_all add: digit_not_space hd_rev [symmetric])
  ultimately show ?thesis
    by (simp add: int_strip_def)
qed

lemma single_underscores_digits: "list_all is_digit s \<Longrightarrow> single_underscores s"
  by (induction s rule: single_underscores.induct) (auto simp: digit_not_space)

lemma py_int_digits:
  assumes "s \<noteq> []" "list_all is_digit s"
  shows "py_int rt s =
    (if 640 < length s \<and> 0 < max_str_digits rt \<and> max_str_digits rt < length s
     then Inl ValueError else Inr (int (digits_value s)))"
proof -
  obtain c cs where s: "s = c # cs"
    using assms(1) by (cases s) auto
  have h: "is_digit (hd s)" "is_digit (last s)"
    using assms by (auto simp: list_all_iff)
  have f: "filter is_digit s = s"
    using assms(2) by (simp add: list_all_iff)
  have ok: "digits_ok s"
    using assms h by (simp add: digits_ok_def single_underscores_digits list_all_iff)
  have c: "c \<noteq> CHR ''-''" "c \<noteq> CHR ''+''"
    using h(1) digit_not_space [of c] by (simp_all add: s)
  have "py_int rt s =
      (if digits_ok s \<and> \<not> too_many_digits rt s then Inr (int (digits_value s))
       else Inl ValueError)"
    unfolding py_int_def int_strip_digits [OF assms(1) h] using c by (simp add: s)
  then show ?thesis
    using ok by (simp add: too_many_digits_def f)
qed

text \<open>
  The whitespace of \<^verbatim>\<open>int\<close>: a tabulator or the space 0xA0 around the digits is dropped,
  the separator 0x1C is not, so that a year with it makes the date invalid.
\<close>

lemma py_int_whitespace:
  "py_int rt [CHR 0x09, CHR ''2'', CHR ''3'', CHR '' ''] = Inr 23"
  "py_int rt [CHR 0xA0, CHR ''2'', CHR ''3'', CHR 0x85] = Inr 23"
  "py_int rt [CHR 0x1C, CHR ''2'', CHR ''3''] = Inl ValueError"
  "py_int rt [CHR ''2'', CHR ''3'', CHR 0x1F] = Inl ValueError"
  "py_int rt ''+ 23'' = Inl ValueError"
  "py_int rt ''1_0'' = Inr 10"
  "py_int rt ''1__0'' = Inl ValueError"
  by code_simp+

lemma fix_event_date_separator:
  "fix_event_date rt (Str (''15/06/'' @ [CHR 0x1C, CHR ''2'', CHR ''3''])) =
     Inr (Str ''InvalidDate'')"
  by code_simp

lemma fix_event_date_slashes:
  assumes "CHR ''/'' \<notin> set day" "CHR ''/'' \<notin> set month" "CHR ''/'' \<notin> set year"
    and "py_int rt year = Inr y"
  shows "fix_event_date rt (Str (day @ ''/'' @ month @ ''/'' @ year)) =
    Inr (Str (fix_year y @ ''-'' @ month @ ''-'' @ day))"
  using assms split_on_three [of "CHR ''/''" day month year]
  by (simp add: fix_event_date_def rebuild_date_def Let_def)

lemma fix_event_date_dashes:
  assumes "CHR ''-'' \<notin> set day" "CHR ''-'' \<notin> set month" "CHR ''-'' \<notin> set year"
    and "CHR ''/'' \<notin> set day" "CHR ''/'' \<notin> set month" "CHR ''/'' \<notin> set year"
    and "length year \<noteq> 4" and "py_int rt year = Inr y"
  shows "fix_event_date rt (Str (year @ ''-'' @ month @ ''-'' @ day)) =
    Inr (Str (fix_year y @ ''-'' @ month @ ''-'' @ day))"
  using assms split_on_three [of "CHR ''-''" year month day]
  by (simp add: fix_event_date_def rebuild_date_def Let_def)

lemma fix_event_date_returns: "\<exists>s. fix_event_date rt date = Inr (Str s)"
proof (cases "fix_event_date_try rt date")
  case (Inl e)
  then show ?thesis by (simp add: fix_event_date_def)
next
  case (Inr d)
  then have "\<exists>s. d = Str s"
    by (cases date)
      (auto simp: rebuild_date_def Let_def split: if_splits sum.splits)
  with Inr show ?thesis by (auto simp: fix_event_date_def)
qed

text \<open>
  C5. \<^verbatim>\<open>fix_event_date\<close> maps "15/06/23" to "2023-06-15", "15/06/99" to "1999-06-15",
  leaves "2020-06-15" as it is and maps "not-a-date" to "InvalidDate". In general, for a
  date \<^verbatim>\<open>day/month/year\<close>, and for a date \<^verbatim>\<open>year-month-day\<close> whose year has not four
  characters, a year \<open>y\<close> from 0 to 39 becomes \<open>2000 + y\<close>, a year from 40 to 99 becomes
  \<open>1900 + y\<close>, and a year from 100 on is kept. Whatever the argument, the function
  returns a string and raises nothing, and it returns "InvalidDate" whenever its
  \<^verbatim>\<open>try\<close> block raises.
\<close>

theorem fix_event_date_spec:
  "fix_event_date rt (Str ''15/06/23'') = Inr (Str ''2023-06-15'') \<and>
   fix_event_date rt (Str ''15/06/99'') = Inr (Str ''1999-06-15'') \<and>
   fix_event_date rt (Str ''2020-06-15'') = Inr (Str ''2020-06-15'') \<and>
   fix_event_date rt (Str ''not-a-date'') = Inr (Str ''InvalidDate'') \<and>
   (\<forall>day month year y.
      CHR ''/'' \<notin> set day \<and> CHR ''/'' \<notin> set month \<and> CHR ''/'' \<notin> set year \<and>
      py_int rt year = Inr y \<and> 0 \<le> y \<longrightarrow>
      fix_event_date rt (Str (day @ ''/'' @ month @ ''/'' @ year)) =
        Inr (Str (py_str_int (if y < 40 then 2000 + y else if y < 100 then 1900 + y else y)
                  @ ''-'' @ month @ ''-'' @ day))) \<and>
   (\<forall>day month year y.
      CHR ''-'' \<notin> set day \<and> CHR ''-'' \<notin> set month \<and> CHR ''-'' \<notin> set year \<and>
      CHR ''/'' \<notin> set day \<and> CHR ''/'' \<notin> set month \<and> CHR ''/'' \<notin> set year \<and>
      length year \<noteq> 4 \<and> py_int rt year = Inr y \<and> 0 \<le> y \<longrightarrow>
      fix_event_date rt (Str (year @ ''-'' @ month @ ''-'' @ day)) =
        Inr (Str (py_str_int (if y < 40 then 2000 + y else if y < 100 then 1900 + y else y)
                  @ ''-'' @ month @ ''-'' @ day))) \<and>
   (\<forall>date. \<exists>s. fix_event_date rt date = Inr (Str s)) \<and>
   (\<forall>date e. fix_event_date_try rt date = Inl e \<longrightarrow>
      fix_event_date rt date = Inr (Str ''InvalidDate''))"
proof -
  have 1: "fix_event_date rt (Str ''15/06/23'') = Inr (Str ''2023-06-15'')"
    by code_simp
  have 2: "fix_event_date rt (Str ''15/06/99'') = Inr (Str ''1999-06-15'')"
    by code_simp
  have 3: "fix_event_date rt (Str ''2020-06-15'') = Inr (Str ''2020-06-15'')"
    by code_simp
  have 4: "fix_event_date rt (Str ''not-a-date'') = Inr (Str ''InvalidDate'')"
    by code_simp
  have 5: "fix_event_date rt (Str (day @ ''/'' @ month @ ''/'' @ year)) =
        Inr (Str (py_str_int (if y < 40 then 2000 + y else if y < 100 then 1900 + y else y)
                  @ ''-'' @ month @ ''-'' @ day))"
    if "CHR ''/'' \<notin> set day \<and> CHR ''/'' \<notin> set month \<and> CHR ''/'' \<notin> set year \<and>
      py_int rt year = Inr y \<and> 0 \<le> y" for day month year y
    using that fix_event_date_slashes [where day = day and month = month and year = year
        and rt = rt and y = y] fix_year_cases [of y]
    by simp
  have 6: "fix_event_date rt (Str (year @ ''-'' @ month @ ''-'' @ day)) =
        Inr (Str (py_str_int (if y < 40 then 2000 + y else if y < 100 then 1900 + y else y)
                  @ ''-'' @ month @ ''-'' @ day))"
    if "CHR ''-'' \<notin> set day \<and> CHR ''-'' \<notin> set month \<and> CHR ''-'' \<notin> set year \<and>
      CHR ''/'' \<notin> set day \<and> CHR ''/'' \<notin> set month \<and> CHR ''/'' \<notin> set year \<and>
      length year \<noteq> 4 \<and> py_int rt year = Inr y \<and> 0 \<le> y" for day month year y
    using that fix_event_date_dashes [where day = day and month = month and year = year
        and rt = rt and y = y] fix_year_cases [of y]
    by simp
  have 7: "\<exists>s. fix_event_date rt date = Inr (Str s)" for date
    by (rule fix_event_date_returns)
  have 8: "fix_event_date rt date = Inr (Str ''InvalidDate'')"
    if "fix_event_date_try rt date = Inl e" for date e
    using that by (simp add: fix_event_date_def)
  show ?thesis
    by (intro conjI allI impI; (rule 1 2 3 4 7 | (rule 5 6 8, assumption)))
qed

theorem fix_event_date_spec_witness:
  "fix_event_date example_runtime (Str ''01/02/39'') = Inr (Str ''2039-02-01'') \<and>
   fix_event_date example_runtime (Str ''45-3-7'') = Inr (Str ''1945-3-7'') \<and>
   fix_event_date example_runtime (Str ''01/02/1875'') = Inr (Str ''1875-02-01'') \<and>
   fix_event_date example_runtime (Float FNaN) = Inr (Str ''InvalidDate'')"
proof -
  have a: "py_int example_runtime ''39'' = Inr 39" "py_int example_runtime ''45'' = Inr 45"
    "py_int example_runtime ''1875'' = Inr 1875"
    by code_simp+
  have b: "py_str_int 2039 = ''2039''" "py_str_int 1875 = ''1875''"
    "py_str_int 1945 = ''1945''"
    by code_simp+
  have c: "fix_event_date_try example_runtime (Float FNaN) = Inl TypeError"
    by simp
  note spec = fix_event_date_spec [of example_runtime]
  have 1: "fix_event_date example_runtime (Str ''01/02/39'') = Inr (Str ''2039-02-01'')"
    using spec [THEN conjunct2, THEN conjunct2, THEN conjunct2, THEN conjunct2,
        THEN conjunct1, rule_format, of "''01''" "''02''" "''39''" 39] a b
    by simp
  have 2: "fix_event_date example_runtime (Str ''45-3-7'') = Inr (Str ''1945-3-7'')"
    using spec [THEN conjunct2, THEN conjunct2, THEN conjunct2, THEN conjunct2,
        THEN conjunct2, THEN conjunct1, rule_format, of "''7''" "''3''" "''45''" 45] a b
    by simp
  have 3: "fix_event_date example_runtime (Str ''01/02/1875'') = Inr (Str ''1875-02-01'')"
    using spec [THEN conjunct2, THEN conjunct2, THEN conjunct2, THEN conjunct2,
        THEN conjunct1, rule_format, of "''01''" "''02''" "''1875''" 1875] a b
    by simp
  have 4: "fix_event_date example_runtime (Float FNaN) = Inr (Str ''InvalidDate'')"
    using spec [THEN conjunct2, THEN conjunct2, THEN conjunct2, THEN conjunct2,
        THEN conjunct2, THEN conjunct2, THEN conjunct2, rule_format, OF c] .
  from 1 2 3 4 show ?thesis
    by simp
qed

section \<open>Lists of results\<close>

lemma map_err_total:
  "(\<And>x. x \<in> set xs \<Longrightarrow> f x = Inr (g x)) \<Longrightarrow> map_err f xs = Inr (map g xs)"
  by (induction xs) auto

lemma map_err_length: "map_err f xs = Inr ys \<Longrightarrow> length ys = length xs"
  by (induction xs arbitrary: ys) (auto split: sum.splits)

section \<open>Null values\<close>

lemma normalize_cell_eq:
  "normalize_cell x = Inr (if isna x \<or> x = Str [] then NA else x)"
  by (cases x rule: isna.cases) (auto simp: normalize_cell_def)

lemma frame_map_normalize:
  "frame_map normalize_cell t =
     Inr (t\<lparr>cols := map (\<lambda>cv. (fst cv, map (\<lambda>x. if isna x \<or> x = Str [] then NA else x) (snd cv)))
                      (cols t)\<rparr>)"
proof -
  have "map_err normalize_cell vs =
      Inr (map (\<lambda>x. if isna x \<or> x = Str [] then NA else x) vs)" for vs
    by (rule map_err_total) (simp add: normalize_cell_eq)
  then have "map_err (\<lambda>cv. case map_err normalize_cell (snd cv) of
                              Inl e \<Rightarrow> Inl e
                            | Inr ws \<Rightarrow> Inr (fst cv, ws)) (cols t) =
      Inr (map (\<lambda>cv. (fst cv, map (\<lambda>x. if isna x \<or> x = Str [] then NA else x) (snd cv)))
             (cols t))"
    by (intro map_err_total) simp
  then show ?thesis
    by (simp add: frame_map_def)
qed

lemma normalize_empty_values_Some:
  "normalize_empty_values (Some t) =
     Inr (Some (t\<lparr>cols := map (\<lambda>cv. (fst cv, map (\<lambda>x. if isna x \<or> x = Str [] then NA else x)
                                              (snd cv)))
                            (cols t)\<rparr>))"
  by (simp add: normalize_empty_values_def normalize_empty_values_try_def frame_map_normalize)

lemma normalize_empty_values_None: "normalize_empty_values None = Inr None"
  by (simp add: normalize_empty_values_def normalize_empty_values_try_def)

lemma normalize_null_table:
  "normalize_empty_values (Some null_table) = Inr (Some null_table_normalized)"
  by (simp add: normalize_empty_values_Some null_table_def null_table_normalized_def)

text \<open>
  C4, as the code has it. After \<^verbatim>\<open>normalize_empty_values\<close> the table has the rows and
  columns it had, no cell is an empty string, and every null cell is \<^verbatim>\<open>pd.NA\<close>; a cell
  that was neither null nor the empty string is what it was, so a placeholder text such
  as "none" stays in the table.
\<close>

theorem normalize_empty_values_cells:
  "\<exists>t'. normalize_empty_values (Some t) = Inr (Some t') \<and>
     index t' = index t \<and> columns t' = columns t \<and>
     cols t' = map (\<lambda>cv. (fst cv, map (\<lambda>x. if isna x \<or> x = Str [] then NA else x) (snd cv)))
                 (cols t) \<and>
     (\<forall>cv \<in> set (cols t'). \<forall>x \<in> set (snd cv). x \<noteq> Str [] \<and> (isna x \<longrightarrow> x = NA))"
  by (auto simp: normalize_empty_values_Some columns_def comp_def)

theorem normalize_empty_values_cells_witness:
  "normalize_empty_values (Some null_table) = Inr (Some null_table_normalized) \<and>
   cols null_table_normalized =
     [(''locality'', [NA, Str ''none'']), (''depth'', [NA, Float (FNum 3)]),
      (''remarks'', [NA, NA])]"
proof -
  obtain t' where t': "normalize_empty_values (Some null_table) = Inr (Some t')"
    and c: "cols t' =
      map (\<lambda>cv. (fst cv, map (\<lambda>x. if isna x \<or> x = Str [] then NA else x) (snd cv)))
        (cols null_table)"
    using normalize_empty_values_cells [of null_table] by blast
  from t' have "t' = null_table_normalized"
    by (simp add: normalize_null_table)
  with t' c show ?thesis
    by (simp add: null_table_def)
qed

text \<open>
  The claim C4 as it is stated fails: the placeholder text "none", one of the values
  \<^verbatim>\<open>clean_and_infer_measurement_values\<close> takes for missing, is still a cell of the
  normalized table.
\<close>

theorem normalize_empty_values_keeps_placeholder:
  "normalize_empty_values (Some null_table) = Inr (Some null_table_normalized) \<and>
   getitem null_table_normalized ''locality'' = Inr [NA, Str ''none''] \<and>
   Str ''none'' \<in> set invalid_values"
  by (simp add: normalize_null_table getitem_def null_table_normalized_def invalid_values_def)

text \<open>
  C9. \<^verbatim>\<open>normalize_empty_values\<close> is idempotent: it returns a value, and applied to that
  value it returns it again. This holds for a table and for \<^verbatim>\<open>None\<close>.
\<close>

theorem normalize_empty_values_idempotent:
  "\<exists>df'. normalize_empty_values df = Inr df' \<and> normalize_empty_values df' = Inr df'"
proof (cases df)
  case None
  then show ?thesis
    by (simp add: normalize_empty_values_None)
next
  case (Some t)
  have "(if isna (if isna x \<or> x = Str [] then NA else x) \<or>
            (if isna x \<or> x = Str [] then NA else x) = Str []
         then NA
         else (if isna x \<or> x = Str [] then NA else x)) =
        (if isna x \<or> x = Str [] then NA else x)" for x
    by simp
  then show ?thesis
    using Some by (simp add: normalize_empty_values_Some comp_def)
qed

theorem normalize_empty_values_idempotent_witness:
  "normalize_empty_values (Some null_table) = Inr (Some null_table_normalized) \<and>
   normalize_empty_values (Some null_table_normalized) = Inr (Some null_table_normalized)"
proof -
  obtain df' where a: "normalize_empty_values (Some null_table) = Inr df'"
    and b: "normalize_empty_values df' = Inr df'"
    using normalize_empty_values_idempotent [of "Some null_table"] by blast
  from a have "df' = Some null_table_normalized"
    by (simp add: normalize_null_table)
  with a b show ?thesis
    by simp
qed

section \<open>Identifiers\<close>

text \<open>
  C7, as the code has it. When the table already has the column, the \<^verbatim>\<open>try\<close> block of
  \<^verbatim>\<open>feature_of_interest_id_generator\<close> raises a \<^verbatim>\<open>ValueError\<close>, the function catches
  it and returns the table as it was: no column is added, removed or changed, and no
  error reaches the caller.
\<close>

theorem feature_of_interest_id_generator_existing_column:
  "column_name \<in> set (columns df) \<Longrightarrow>
     feature_of_interest_id_generator_try rt df column_name = Inl ValueError \<and>
     feature_of_interest_id_generator rt df column_name = Inr df"
  by (simp add: feature_of_interest_id_generator_def feature_of_interest_id_generator_try_def)

theorem feature_of_interest_id_generator_existing_column_witness:
  "''featureOfInterestId'' \<in> set (columns identified_table) \<and>
   feature_of_interest_id_generator_try example_runtime identified_table ''featureOfInterestId'' =
     Inl ValueError \<and>
   feature_of_interest_id_generator example_runtime identified_table ''featureOfInterestId'' =
     Inr identified_table"
proof -
  have c: "''featureOfInterestId'' \<in> set (columns identified_table)"
    by (simp add: columns_def identified_table_def)
  from feature_of_interest_id_generator_existing_column [OF c, of example_runtime] c
  show ?thesis
    by simp
qed

text \<open>
  The claim C7 as it is stated fails: on a table that has the column
  \<^verbatim>\<open>featureOfInterestId\<close> the function returns normally, with the table, and raises
  nothing.
\<close>

theorem feature_of_interest_id_generator_returns:
  "columns identified_table = [''site'', ''featureOfInterestId''] \<and>
   \<not> isl (feature_of_interest_id_generator example_runtime identified_table
            ''featureOfInterestId'') \<and>
   feature_of_interest_id_generator example_runtime identified_table ''featureOfInterestId'' =
     Inr identified_table"
  by (simp add: feature_of_interest_id_generator_def feature_of_interest_id_generator_try_def
      columns_def identified_table_def)

section \<open>Taxonomy: the missing companion column\<close>

lemma columns_setitem:
  "columns (setitem df c vs) =
     (if c \<in> set (columns df) then columns df else columns df @ [c])"
  by (auto simp: setitem_def columns_def comp_def intro!: map_idI)

lemma taxonomy_try_without_accepted_name:
  assumes "''taxonRank'' \<in> set (columns df)" "''acceptedNameUsage'' \<notin> set (columns df)"
  shows "\<exists>e. taxonomy_attribution_preparation_try taxonomy_file df = Inl e"
  using assms
  by (cases taxonomy_file)
    (auto simp: taxonomy_attribution_preparation_try_def columns_setitem Let_def
      split: sum.splits)

text \<open>
  C6, as the code has it. On a table with a \<^verbatim>\<open>taxonRank\<close> column and no
  \<^verbatim>\<open>acceptedNameUsage\<close> column the \<^verbatim>\<open>try\<close> block of
  \<^verbatim>\<open>taxonomy_attribution_preparation\<close> raises (the \<^verbatim>\<open>ValueError\<close> of line 475 when the
  taxonomy list was loaded and the ranks could be put in lower case), the function
  catches the exception and returns \<^verbatim>\<open>None\<close>: no error reaches the caller.
\<close>

theorem taxonomy_without_accepted_name:
  assumes "''taxonRank'' \<in> set (columns df)" "''acceptedNameUsage'' \<notin> set (columns df)"
  shows "(\<exists>e. taxonomy_attribution_preparation_try taxonomy_file df = Inl e) \<and>
    taxonomy_attribution_preparation taxonomy_file df = Inr None \<and>
    (\<forall>taxonomy_list ranks lowered.
       taxonomy_file = Json taxonomy_list \<and> getitem df ''taxonRank'' = Inr ranks \<and>
       str_lower ranks = Inr lowered \<longrightarrow>
       taxonomy_attribution_preparation_try taxonomy_file df = Inl ValueError)"
proof -
  obtain e where e: "taxonomy_attribution_preparation_try taxonomy_file df = Inl e"
    using taxonomy_try_without_accepted_name [OF assms] by blast
  then have "taxonomy_attribution_preparation taxonomy_file df = Inr None"
    by (simp add: taxonomy_attribution_preparation_def)
  moreover have "taxonomy_attribution_preparation_try taxonomy_file df = Inl ValueError"
    if "taxonomy_file = Json taxonomy_list \<and> getitem df ''taxonRank'' = Inr ranks \<and>
       str_lower ranks = Inr lowered" for taxonomy_list ranks lowered
    using that assms
    by (simp add: taxonomy_attribution_preparation_try_def columns_setitem Let_def)
  ultimately show ?thesis
    using e by blast
qed

theorem taxonomy_without_accepted_name_witness:
  "''taxonRank'' \<in> set (columns ranked_table) \<and>
   ''acceptedNameUsage'' \<notin> set (columns ranked_table) \<and>
   taxonomy_attribution_preparation_try (Json [''kingdom'', ''family'']) ranked_table =
     Inl ValueError \<and>
   taxonomy_attribution_preparation (Json [''kingdom'', ''family'']) ranked_table = Inr None"
proof -
  have a: "''taxonRank'' \<in> set (columns ranked_table)"
    and b: "''acceptedNameUsage'' \<notin> set (columns ranked_table)"
    by (simp_all add: columns_def ranked_table_def)
  have c: "getitem ranked_table ''taxonRank'' = Inr [Str ''Species'', Str ''Species'']"
    by (simp add: getitem_def ranked_table_def)
  have d: "str_lower [Str ''Species'', Str ''Species''] =
      Inr (map lower_cell [Str ''Species'', Str ''Species''])"
    by (simp add: str_lower_def)
  from taxonomy_without_accepted_name [OF a b, of "Json [''kingdom'', ''family'']"] a b c d
  show ?thesis
    by simp
qed

text \<open>
  The claim C6 as it is stated fails: on such a table the function returns \<^verbatim>\<open>None\<close> to
  its caller and raises nothing.
\<close>

theorem taxonomy_without_accepted_name_returns:
  "columns ranked_table = [''scientificName'', ''taxonRank''] \<and>
   \<not> isl (taxonomy_attribution_preparation (Json [''kingdom'', ''family'']) ranked_table) \<and>
   taxonomy_attribution_preparation (Json [''kingdom'', ''family'']) ranked_table = Inr None"
proof -
  have "taxonomy_attribution_preparation_try (Json [''kingdom'', ''family'']) ranked_table =
      Inl ValueError"
    by (simp add: taxonomy_attribution_preparation_try_def columns_def ranked_table_def
        getitem_def str_lower_def setitem_def Let_def)
  then show ?thesis
    by (simp add: taxonomy_attribution_preparation_def columns_def ranked_table_def)
qed

section \<open>Measurement attributes: errors\<close>

lemma measurement_try_melt_error:
  assumes "filter (\<lambda>c. c \<in> set (map fst trait_dict)) (columns df) \<noteq> []"
    and "measurement_attribute_preparation_try rt (Json trait_dict) df = Inl (e, d)"
  shows "d = df"
  using assms
  by (simp add: measurement_attribute_preparation_try_def Let_def split: sum.splits)

lemma measurement_attribute_preparation_returns:
  "\<exists>t. measurement_attribute_preparation rt trait_file df = Inr t"
  by (cases "measurement_attribute_preparation_try rt trait_file df")
    (auto simp: measurement_attribute_preparation_def)

text \<open>
  C3, as the code has it. When the trait dictionary file is missing or is not JSON, the
  \<^verbatim>\<open>try\<close> block of \<^verbatim>\<open>measurement_attribute_preparation\<close> raises, the function catches
  the exception and returns its input table unmodified. Whatever the file and the table,
  the function returns a table and no error propagates. When the table has at least one
  measurement column, every exception of the \<^verbatim>\<open>try\<close> block is answered by returning the
  input table unmodified.
\<close>

theorem measurement_attribute_preparation_errors:
  "measurement_attribute_preparation_try rt NoFile df = Inl (FileNotFoundError, df) \<and>
   measurement_attribute_preparation rt NoFile df = Inr df \<and>
   measurement_attribute_preparation_try rt NotJson df = Inl (JSONDecodeError, df) \<and>
   measurement_attribute_preparation rt NotJson df = Inr df \<and>
   (\<exists>t. measurement_attribute_preparation rt trait_file df = Inr t) \<and>
   (\<forall>trait_dict e d.
      filter (\<lambda>c. c \<in> set (map fst trait_dict)) (columns df) \<noteq> [] \<and>
      measurement_attribute_preparation_try rt (Json trait_dict) df = Inl (e, d) \<longrightarrow>
      d = df \<and> measurement_attribute_preparation rt (Json trait_dict) df = Inr df)"
proof -
  have 1: "measurement_attribute_preparation_try rt NoFile df = Inl (FileNotFoundError, df)"
    and 2: "measurement_attribute_preparation_try rt NotJson df = Inl (JSONDecodeError, df)"
    by (simp_all add: measurement_attribute_preparation_try_def)
  have 3: "measurement_attribute_preparation rt NoFile df = Inr df"
    and 4: "measurement_attribute_preparation rt NotJson df = Inr df"
    by (simp_all add: measurement_attribute_preparation_def 1 2)
  have 5: "d = df \<and> measurement_attribute_preparation rt (Json trait_dict) df = Inr df"
    if "filter (\<lambda>c. c \<in> set (map fst trait_dict)) (columns df) \<noteq> [] \<and>
      measurement_attribute_preparation_try rt (Json trait_dict) df = Inl (e, d)"
    for trait_dict e d
    using that measurement_try_melt_error [of trait_dict df rt e d]
    by (simp add: measurement_attribute_preparation_def)
  show ?thesis
    by (intro conjI allI impI measurement_attribute_preparation_returns;
        (rule 1 2 3 4 | (drule 5, simp)))
qed

theorem measurement_attribute_preparation_errors_witness:
  "filter (\<lambda>c. c \<in> set (map fst example_traits)) (columns remeasured_table) = [''height''] \<and>
   measurement_attribute_preparation_try example_runtime (Json example_traits) remeasured_table =
     Inl (ValueError, remeasured_table) \<and>
   measurement_attribute_preparation example_runtime (Json example_traits) remeasured_table =
     Inr remeasured_table"
proof -
  have a: "filter (\<lambda>c. c \<in> set (map fst example_traits)) (columns remeasured_table) =
      [''height'']"
    by (simp add: example_traits_def columns_def remeasured_table_def)
  have b: "measurement_attribute_preparation_try example_runtime (Json example_traits)
      remeasured_table = Inl (ValueError, remeasured_table)"
    by code_simp
  from measurement_attribute_preparation_errors
    [of example_runtime remeasured_table "Json example_traits", THEN conjunct2, THEN conjunct2,
      THEN conjunct2, THEN conjunct2, THEN conjunct2, rule_format,
      of example_traits ValueError remeasured_table] a b
  show ?thesis
    by simp
qed

text \<open>
  The claim C3 as it is stated fails: with the trait dictionary file missing, or not
  JSON, the function returns its input table to the caller and raises nothing.
\<close>

theorem measurement_attribute_preparation_missing_file_returns:
  "\<not> isl (measurement_attribute_preparation example_runtime NoFile measured_table) \<and>
   measurement_attribute_preparation example_runtime NoFile measured_table =
     Inr measured_table \<and>
   \<not> isl (measurement_attribute_preparation example_runtime NotJson measured_table) \<and>
   measurement_attribute_preparation example_runtime NotJson measured_table =
     Inr measured_table"
  by (simp add: measurement_attribute_preparation_def measurement_attribute_preparation_try_def)

text \<open>
  Outside the melt, the table returned after an exception need not be the input table:
  with a \<^verbatim>\<open>measurementValue\<close> column, no measurement column and no \<^verbatim>\<open>measurementType\<close>
  column, line 326 raises a \<^verbatim>\<open>KeyError\<close> after \<^verbatim>\<open>df\<close> was bound to the copy that has
  the \<^verbatim>\<open>observationId\<close> column, and that copy is returned.
\<close>

lemma measurement_fallback_error_returns_copy:
  "measurement_attribute_preparation example_runtime (Json [])
     \<lparr>index = [0], cols = [(''measurementValue'', [Str ''12''])]\<rparr> =
   Inr \<lparr>index = [0],
        cols = [(''measurementValue'', [Str ''12'']),
                (''observationId'', [Str ''0f8fad5b-d9cb-4000''])]\<rparr>"
  by code_simp

section \<open>Columns of a table\<close>

lemma filter_key_distinct:
  "distinct (map fst xs) \<Longrightarrow>
   filter (\<lambda>cv. fst cv = c) xs = (case map_of xs c of None \<Rightarrow> [] | Some v \<Rightarrow> [(c, v)])"
proof (induction xs)
  case Nil
  then show ?case by simp
next
  case (Cons x xs)
  then have "fst x \<notin> fst ` set xs"
    by simp
  then have "map_of xs (fst x) = None"
    by (simp add: map_of_eq_None_iff)
  with Cons show ?case
    by (cases x) (auto split: option.splits)
qed

lemma getitem_distinct:
  "distinct (columns df) \<Longrightarrow>
   getitem df c = (case map_of (cols df) c of None \<Rightarrow> Inl (KeyError c) | Some vs \<Rightarrow> Inr vs)"
  by (simp add: getitem_def columns_def filter_key_distinct split: option.splits)

lemma getitem_column:
  "distinct (columns df) \<Longrightarrow> c \<in> set (columns df) \<Longrightarrow> \<exists>vs. getitem df c = Inr vs"
  by (auto simp: getitem_distinct columns_def map_of_eq_None_iff split: option.splits)

lemma map_of_setitem: "map_of (cols (setitem df c vs)) = (map_of (cols df))(c \<mapsto> vs)"
proof (cases "c \<in> set (columns df)")
  case True
  have "map_of (map (\<lambda>cv. if fst cv = c then (c, vs) else cv) xs) k =
      (if k = c \<and> c \<in> fst ` set xs then Some vs else map_of xs k)" for xs k
    by (induction xs) (auto simp: rev_image_eqI)
  with True show ?thesis
    by (auto simp: setitem_def columns_def fun_eq_iff)
next
  case False
  then have "map_of (cols df) c = None"
    by (simp add: columns_def map_of_eq_None_iff)
  with False show ?thesis
    by (auto simp: setitem_def fun_eq_iff map_add_def split: option.splits)
qed

lemma distinct_setitem: "distinct (columns df) \<Longrightarrow> distinct (columns (setitem df c vs))"
  by (simp add: columns_setitem)

lemma len_setitem: "len (setitem df c vs) = len df"
  by (simp add: len_def setitem_def)

lemma getitem_setitem:
  "distinct (columns df) \<Longrightarrow>
   getitem (setitem df c vs) k = (if k = c then Inr vs else getitem df k)"
  by (simp add: getitem_distinct distinct_setitem map_of_setitem)

lemma columns_setitem_scalar:
  "columns (setitem_scalar df c x) =
     (if c \<in> set (columns df) then columns df else columns df @ [c])"
  by (simp add: setitem_scalar_def columns_setitem)

lemma getitem_setitem_scalar:
  "distinct (columns df) \<Longrightarrow>
   getitem (setitem_scalar df c x) k =
     (if k = c then Inr (replicate (len df) x) else getitem df k)"
  by (simp add: setitem_scalar_def getitem_setitem)

section \<open>Coordinates\<close>

lemma coordinate_to_float_not_empty:
  "coordinate_to_float rt x = Inr y \<Longrightarrow> eq_empty y = Inr False"
  by (auto simp: coordinate_to_float_def split: if_splits option.splits)

lemma create_point_not_empty:
  "eq_empty lat = Inr False \<Longrightarrow> eq_empty lon = Inr False \<Longrightarrow>
   create_point rt lat lon = Inr (Str (py_str rt lat @ '', '' @ py_str rt lon))"
  by (simp add: create_point_def)

text \<open>
  Whatever the runtime, a coordinate that was converted is never equal to the empty
  string, so \<^verbatim>\<open>create_point\<close> always takes its last branch: a missing latitude or
  longitude is printed as \<^verbatim>\<open>None\<close> or \<^verbatim>\<open>nan\<close>, and the point is never \<^verbatim>\<open>pd.NA\<close>.
\<close>

lemma create_point_converted:
  assumes "coordinate_to_float rt x = Inr lat" "coordinate_to_float rt y = Inr lon"
  shows "create_point rt lat lon = Inr (Str (py_str rt lat @ '', '' @ py_str rt lon))"
  using assms by (simp add: create_point_not_empty coordinate_to_float_not_empty)

text \<open>
  C2, on a table whose four rows have both coordinates, only the longitude, only the
  latitude, and neither. The first row is as the claim says: the coordinates are 40.5
  and -3.7 and the point is "40.5, -3.7". The other rows are not: the point is
  "nan, -3.7" where the claim says "NaN, -3.7", "40.5, nan" where it says "40.5, NaN",
  and "nan, nan" where it says the null sentinel.
\<close>

theorem process_coordinates_missing_coordinates:
  "process_coordinates example_runtime coordinates_table =
     Inr \<lparr>index = [0, 1, 2, 3],
          cols = [(''decimalLatitude'',
                     [Float (FNum 40.5), Float FNaN, Float (FNum 40.5), Float FNaN]),
                  (''decimalLongitude'',
                     [Float (FNum (- 3.7)), Float (FNum (- 3.7)), Float FNaN, Float FNaN]),
                  (''point'',
                     [Str ''40.5, -3.7'', Str ''nan, -3.7'', Str ''40.5, nan'',
                      Str ''nan, nan''])]\<rparr>"
  by code_simp

lemma columns_negate_depth: "columns (negate_depth rt df) = columns df"
  by (auto simp: negate_depth_def columns_setitem split: sum.splits)


lemma columns_drop_columns_ignore:
  "columns (drop_columns_ignore df cs) = filter (\<lambda>c. c \<notin> set cs) (columns df)"
  by (simp add: drop_columns_ignore_def columns_def filter_map comp_def)

lemma len_drop_columns_ignore: "len (drop_columns_ignore df cs) = len df"
  by (simp add: drop_columns_ignore_def len_def)












section \<open>Rows selected by a mask\<close>

lemma select_map: "select (map p xs) (map f xs) = map f (filter p xs)"
  by (induction xs) (auto simp: select_def)

lemma select_unless:
  "select (map (\<lambda>x. \<not> m x) xs) (map (\<lambda>x. if m x then a else f x) xs) =
   map f (filter (\<lambda>x. \<not> m x) xs)"
  by (induction xs) (auto simp: select_def)

lemma select_same: "select (map p xs) xs = filter p xs"
  using select_map [of p xs "\<lambda>x. x"] by simp

lemma length_select_map:
  "length ys = length xs \<Longrightarrow> length (select (map p xs) ys) = length (filter p xs)"
  by (induction xs ys rule: list_induct2') (auto simp: select_def)

lemma columns_select_rows: "columns (select_rows keep df) = columns df"
  by (simp add: select_rows_def columns_def comp_def)

lemma index_select_rows: "index (select_rows keep df) = select keep (index df)"
  by (simp add: select_rows_def)

lemma map_of_map_values:
  "map_of (map (\<lambda>cv. (fst cv, f (snd cv))) xs) k = map_option f (map_of xs k)"
  by (induction xs) auto

lemma getitem_select_rows:
  "distinct (columns df) \<Longrightarrow>
   getitem (select_rows keep df) c =
     (case getitem df c of Inl e \<Rightarrow> Inl e | Inr vs \<Rightarrow> Inr (select keep vs))"
  by (simp add: getitem_distinct columns_select_rows)
    (simp add: select_rows_def map_of_map_values split: option.splits)

lemma drop_columns_present:
  assumes "set cs \<subseteq> set (columns df)"
  shows "drop_columns df cs = Inr (drop_columns_ignore df cs)"
proof -
  have "filter (\<lambda>c. c \<notin> set (columns df)) cs = []"
    using assms by (auto simp: filter_empty_conv)
  then show ?thesis
    by (simp add: drop_columns_def)
qed

lemma distinct_drop_columns_ignore:
  "distinct (columns df) \<Longrightarrow> distinct (columns (drop_columns_ignore df cs))"
  by (simp add: columns_drop_columns_ignore)

lemma index_setitem: "index (setitem df c vs) = index df"
  by (simp add: setitem_def)

lemma index_drop_columns_ignore: "index (drop_columns_ignore df cs) = index df"
  by (simp add: drop_columns_ignore_def)

lemma getitem_in_columns:
  assumes "getitem df c = Inr vs"
  shows "c \<in> set (columns df)"
proof -
  have "filter (\<lambda>cv. fst cv = c) (cols df) \<noteq> []"
    using assms by (auto simp: getitem_def)
  then obtain cv where "cv \<in> set (cols df)" "fst cv = c"
    by (auto simp: filter_empty_conv)
  then show ?thesis
    by (auto simp: columns_def)
qed

section \<open>Measurement values\<close>

lemma cleaned_value:
  "(if notna (Float (to_numeric_cell rt (replace_invalid x)))
    then Float (to_numeric_cell rt (replace_invalid x)) else replace_invalid x) =
   (if isna x \<or> x \<in> set invalid_values then NA
    else (case to_numeric_cell rt x of FNaN \<Rightarrow> x | FNum r \<Rightarrow> Float (FNum r)))"
  by (cases "to_numeric_cell rt x") (auto simp: replace_invalid_def notna_def)

lemma cleaned_values:
  "map (\<lambda>(num, mv). if notna num then num else mv)
     (zip (pd_to_numeric rt (map replace_invalid vs)) (map replace_invalid vs)) =
   map (\<lambda>x. if isna x \<or> x \<in> set invalid_values then NA
             else (case to_numeric_cell rt x of FNaN \<Rightarrow> x | FNum r \<Rightarrow> Float (FNum r))) vs"
  by (induction vs) (simp_all add: pd_to_numeric_def cleaned_value)

lemma notna_cleaned:
  "notna (if isna x \<or> x \<in> set invalid_values then NA
          else (case to_numeric_cell rt x of FNaN \<Rightarrow> x | FNum r \<Rightarrow> Float (FNum r))) =
   (\<not> (isna x \<or> x \<in> set invalid_values))"
  by (cases "to_numeric_cell rt x") (auto simp: notna_def)

lemma clean_try_keep_strings:
  assumes "distinct (columns df)" "getitem df ''measurementValue'' = Inr vs"
  shows "clean_and_infer_measurement_values_try rt df True =
    Inr (drop_columns_ignore
           (setitem
              (select_rows (map (\<lambda>x. \<not> (isna x \<or> x \<in> set invalid_values)) vs)
                 (setitem
                    (setitem (setitem df ''measurementValue'' (map replace_invalid vs))
                       ''numericValue'' (pd_to_numeric rt (map replace_invalid vs)))
                    ''measurementValue_cleaned''
                    (map (\<lambda>x. if isna x \<or> x \<in> set invalid_values then NA
                               else (case to_numeric_cell rt x of
                                       FNaN \<Rightarrow> x
                                     | FNum r \<Rightarrow> Float (FNum r))) vs)))
              ''measurementValue''
              (map (\<lambda>x. case to_numeric_cell rt x of FNaN \<Rightarrow> x | FNum r \<Rightarrow> Float (FNum r))
                 (filter (\<lambda>x. \<not> (isna x \<or> x \<in> set invalid_values)) vs)))
           [''numericValue'', ''measurementValue_cleaned''])"
proof -
  let ?missing = "\<lambda>x. isna x \<or> x \<in> set invalid_values"
  let ?coerce = "\<lambda>x. case to_numeric_cell rt x of FNaN \<Rightarrow> x | FNum r \<Rightarrow> Float (FNum r)"
  let ?cleaned = "map (\<lambda>x. if ?missing x then NA else ?coerce x) vs"
  let ?df1 = "setitem df ''measurementValue'' (map replace_invalid vs)"
  let ?df2 = "setitem ?df1 ''numericValue'' (pd_to_numeric rt (map replace_invalid vs))"
  let ?df3 = "setitem ?df2 ''measurementValue_cleaned'' ?cleaned"
  have d: "distinct (columns ?df1)" "distinct (columns ?df2)" "distinct (columns ?df3)"
    using assms(1) by (simp_all add: distinct_setitem)
  have s: "select (map (\<lambda>x. \<not> ?missing x) vs) ?cleaned =
      map ?coerce (filter (\<lambda>x. \<not> ?missing x) vs)"
    by (rule select_unless)
  have dn: "dropna ?df3 ''measurementValue_cleaned'' =
      Inr (select_rows (map (\<lambda>x. \<not> ?missing x) vs) ?df3)"
    using d by (simp add: dropna_def getitem_setitem notna_cleaned comp_def del: de_Morgan_disj)
  have g: "getitem (select_rows (map (\<lambda>x. \<not> ?missing x) vs) ?df3) ''measurementValue_cleaned'' =
      Inr (map ?coerce (filter (\<lambda>x. \<not> ?missing x) vs))"
    using d by (simp add: getitem_select_rows getitem_setitem s del: de_Morgan_disj)
  have c: "set [''numericValue'', ''measurementValue_cleaned''] \<subseteq>
      set (columns (setitem (select_rows (map (\<lambda>x. \<not> ?missing x) vs) ?df3)
        ''measurementValue'' (map ?coerce (filter (\<lambda>x. \<not> ?missing x) vs))))"
    by (auto simp: columns_setitem columns_select_rows)
  show ?thesis
    unfolding clean_and_infer_measurement_values_try_def
    using assms d
    by (simp add: Let_def getitem_setitem cleaned_values dn g drop_columns_present [OF c]
        del: de_Morgan_disj)
qed



section \<open>Melting\<close>

lemma getitem_column_or_nan:
  "distinct (columns df) \<Longrightarrow> c \<in> set (columns df) \<Longrightarrow>
   getitem df c = Inr (column_or_nan df c)"
  by (auto simp: getitem_distinct column_or_nan_def columns_def map_of_eq_None_iff
      split: option.splits)

lemma map_err_getitem:
  "distinct (columns df) \<Longrightarrow> set cs \<subseteq> set (columns df) \<Longrightarrow>
   map_err (getitem df) cs = Inr (map (column_or_nan df) cs)"
  by (rule map_err_total) (auto simp: getitem_column_or_nan)

lemma length_column_or_nan:
  "wf_table df \<Longrightarrow> length (column_or_nan df c) = len df"
proof (cases "map_of (cols df) c")
  case None
  then show ?thesis
    by (simp add: column_or_nan_def)
next
  case (Some vs)
  assume "wf_table df"
  moreover from Some have "(c, vs) \<in> set (cols df)"
    by (rule map_of_SomeD)
  ultimately have "length vs = len df"
    by (auto simp: wf_table_def list_all_iff)
  with Some show ?thesis
    by (simp add: column_or_nan_def)
qed

lemma length_concat_columns:
  "wf_table df \<Longrightarrow> length (concat (map (column_or_nan df) cs)) = len df * length cs"
  by (induction cs) (simp_all add: length_column_or_nan)

lemma length_concat_replicate: "length (concat (replicate k xs)) = k * length xs"
  by (induction k) simp_all

lemma map_zip_same: "map (\<lambda>(c, vs). g c vs) (zip cs (map f cs)) = map (\<lambda>c. g c (f c)) cs"
  by (induction cs) simp_all

lemma melt_columns:
  assumes "distinct (columns frame)" "set id_vars \<subseteq> set (columns frame)"
    "set value_vars \<subseteq> set (columns frame)" "value_name \<notin> set (columns frame)"
    "var_name \<notin> set id_vars"
  shows "melt frame id_vars value_vars var_name value_name =
    Inr \<lparr>index = concat (replicate (length value_vars) (index frame)),
         cols = map (\<lambda>c. (c, concat (replicate (length value_vars) (column_or_nan frame c))))
                  id_vars @
                [(var_name, concat (map (\<lambda>v. replicate (len frame) (Str v)) value_vars)),
                 (value_name, concat (map (column_or_nan frame) value_vars))]\<rparr>"
proof -
  have "map (\<lambda>(c, vs). (c, if c = var_name
                               then concat (map (\<lambda>v. replicate (len frame) (Str v)) value_vars)
                               else concat (replicate (length value_vars) vs)))
          (zip id_vars (map (column_or_nan frame) id_vars)) =
      map (\<lambda>c. (c, concat (replicate (length value_vars) (column_or_nan frame c)))) id_vars"
    using assms(5) by (simp add: map_zip_same)
  then show ?thesis
    using assms by (simp add: melt_def map_err_getitem Let_def)
qed

lemma len_melt:
  assumes "distinct (columns frame)" "set id_vars \<subseteq> set (columns frame)"
    "set value_vars \<subseteq> set (columns frame)" "value_name \<notin> set (columns frame)"
    "var_name \<notin> set id_vars"
  shows "\<exists>melted. melt frame id_vars value_vars var_name value_name = Inr melted \<and>
    len melted = len frame * length value_vars"
  using melt_columns [OF assms]
  by (simp add: len_def length_concat_replicate mult.commute)

section \<open>Joining on a key\<close>

lemma filter_eq_upt: "filter (\<lambda>x. x = j) [0..<n] = (if j < n then [j] else [])"
  by (induction n) auto

lemma positions_distinct:
  assumes "distinct ks" "k \<in> set ks"
  shows "\<exists>j. positions ks k = [j]"
proof -
  obtain j where j: "j < length ks" "ks ! j = k"
    using assms(2) by (auto simp: in_set_conv_nth)
  have "filter (\<lambda>i. ks ! i = k) [0..<length ks] = filter (\<lambda>i. i = j) [0..<length ks]"
    using assms(1) j by (intro filter_cong) (auto simp: nth_eq_iff_index_eq)
  then show ?thesis
    using j by (simp add: positions_def filter_eq_upt)
qed

lemma merge_pairs_unique:
  assumes "distinct rk" "set lk \<subseteq> set rk"
  shows "map fst (concat (map (\<lambda>i. case positions rk (lk ! i) of
                                     [] \<Rightarrow> [(i, None)]
                                   | js \<Rightarrow> map (\<lambda>j. (i, Some j)) js)
                           [0..<length lk])) = [0..<length lk]"
proof -
  have "(case positions rk (lk ! i) of [] \<Rightarrow> [(i, None)] | js \<Rightarrow> map (\<lambda>j. (i, Some j)) js) =
      [(i, Some (hd (positions rk (lk ! i))))]" if "i < length lk" for i
  proof -
    from that assms(2) have "lk ! i \<in> set rk"
      by (auto simp: subset_iff)
    then obtain j where "positions rk (lk ! i) = [j]"
      using positions_distinct [OF assms(1)] by blast
    then show ?thesis
      by simp
  qed
  then have e: "map (\<lambda>i. case positions rk (lk ! i) of
                        [] \<Rightarrow> [(i, None)]
                      | js \<Rightarrow> map (\<lambda>j. (i, Some j)) js) [0..<length lk] =
      map (\<lambda>i. [(i, Some (hd (positions rk (lk ! i))))]) [0..<length lk]"
    by (intro map_cong) auto
  show ?thesis
    unfolding e by (simp add: concat_map_singleton comp_def)
qed

lemma merge_left_unique:
  assumes dl: "distinct (columns left)" and dr: "distinct (columns right)"
    and lk: "getitem left key = Inr lk" and rk: "getitem right key = Inr rk"
    and u: "distinct rk" "set lk \<subseteq> set rk"
    and o: "set (columns left) \<inter> set (columns right) \<subseteq> {key}"
  shows "\<exists>merged. merge_left left right key = Inr merged \<and>
    index merged = [0..<length lk] \<and> distinct (columns merged) \<and>
    (\<forall>c vs. getitem left c = Inr vs \<and> length vs = length lk \<longrightarrow> getitem merged c = Inr vs)"
proof -
  define pairs where "pairs = concat (map (\<lambda>i. case positions rk (lk ! i) of
                                                 [] \<Rightarrow> [(i, None)]
                                               | js \<Rightarrow> map (\<lambda>j. (i, Some j)) js)
                                       [0..<length lk])"
  define lcols where "lcols = map (\<lambda>cv. (fst cv, map (\<lambda>p. snd cv ! fst p) pairs)) (cols left)"
  define rcols where "rcols =
    map (\<lambda>cv. (fst cv, map (\<lambda>p. case snd p of None \<Rightarrow> Float FNaN | Some j \<Rightarrow> snd cv ! j) pairs))
      (filter (\<lambda>cv. fst cv \<noteq> key) (cols right))"
  have p: "map fst pairs = [0..<length lk]"
    unfolding pairs_def by (rule merge_pairs_unique [OF u])
  have n: "length pairs = length lk"
    using arg_cong [OF p, of length] by simp
  have l: "map (\<lambda>cv. (if fst cv \<noteq> key \<and> fst cv \<in> set (columns left) \<and>
                          fst cv \<in> set (columns right)
                       then fst cv @ ''_x'' else fst cv,
                       map (\<lambda>p. snd cv ! fst p) pairs)) (cols left) = lcols"
    unfolding lcols_def using o by (intro map_cong) (auto simp: columns_def)
  have r: "map (\<lambda>cv. (if fst cv \<noteq> key \<and> fst cv \<in> set (columns left) \<and>
                          fst cv \<in> set (columns right)
                       then fst cv @ ''_y'' else fst cv,
                       map (\<lambda>p. case snd p of None \<Rightarrow> Float FNaN | Some j \<Rightarrow> snd cv ! j) pairs))
             (filter (\<lambda>cv. fst cv \<noteq> key) (cols right)) = rcols"
    unfolding rcols_def using o by (intro map_cong) (auto simp: columns_def)
  have fl: "map fst lcols = columns left"
    by (simp add: lcols_def columns_def comp_def)
  have fr: "map fst rcols = filter (\<lambda>c. c \<noteq> key) (columns right)"
    by (simp add: rcols_def columns_def comp_def filter_map)
  have d: "distinct (map fst lcols)" "distinct (map fst rcols)"
    using dl dr by (simp_all add: fl fr)
  have m: "merge_left left right key = Inr \<lparr>index = [0..<length pairs], cols = lcols @ rcols\<rparr>"
    apply (simp only: merge_left_def lk rk sum.case Let_def)
    apply (simp only: pairs_def [symmetric])
    apply (simp only: l r)
    using d apply simp
    done
  have dm: "distinct (map fst (lcols @ rcols))"
    using dl dr o by (auto simp: fl fr)
  have g: "getitem \<lparr>index = [0..<length pairs], cols = lcols @ rcols\<rparr> c = Inr vs"
    if "getitem left c = Inr vs \<and> length vs = length lk" for c vs
  proof -
    from that dl have "map_of (cols left) c = Some vs"
      by (simp add: getitem_distinct split: option.splits)
    then have "map_of lcols c = Some (map (\<lambda>p. vs ! fst p) pairs)"
      using map_of_map_values [of "\<lambda>vs. map (\<lambda>p. vs ! fst p) pairs" "cols left" c]
      by (simp add: lcols_def)
    moreover have "map (\<lambda>p. vs ! fst p) pairs = map (nth vs) (map fst pairs)"
      by simp
    ultimately have "map_of lcols c = Some vs"
      using map_nth [of vs] that by (simp only: p)
    then show ?thesis
      using dm by (simp add: getitem_distinct columns_def)
  qed
  show ?thesis
    using m n dm g by (auto simp: columns_def)
qed

section \<open>Measurement attributes: rows\<close>

lemma len_clean_keep_strings:
  assumes "distinct (columns df)" "getitem df ''measurementValue'' = Inr vs"
    "length vs = len df"
  shows "\<exists>t. clean_and_infer_measurement_values rt df True = Inr t \<and>
    len t = length (filter (\<lambda>x. \<not> (isna x \<or> x \<in> set invalid_values)) vs)"
proof -
  have "length (select (map (\<lambda>x. \<not> (isna x \<or> x \<in> set invalid_values)) vs) (index df)) =
      length (filter (\<lambda>x. \<not> (isna x \<or> x \<in> set invalid_values)) vs)"
    using assms(3) by (intro length_select_map) (simp add: len_def)
  then show ?thesis
    unfolding clean_and_infer_measurement_values_def
      clean_try_keep_strings [OF assms(1) assms(2)]
    by (simp add: len_def index_drop_columns_ignore index_setitem index_select_rows
        del: de_Morgan_disj)
qed

lemma len_observation_id_generator:
  "\<exists>t. observation_id_generator rt df c = Inr t \<and> len t = len df"
  by (simp add: observation_id_generator_def observation_id_generator_try_def len_setitem)

lemma trait_keys:
  "map_err trait_row td = Inr rows \<Longrightarrow> map (\<lambda>row. row ! 0) rows = map (\<lambda>kv. Str (fst kv)) td"
  by (induction td arbitrary: rows) (auto simp: trait_row_def split: sum.splits list.splits)

lemma zip_trait_columns:
  "zip [0..<5] trait_columns =
     [(0, ''propertyName''), (1, ''propertyLabel''), (2, ''propertyDefinition''),
      (3, ''measurementUnit''), (4, ''propertyUrl'')]"
  by code_simp

lemma cols_trait_frame:
  "rows \<noteq> [] \<Longrightarrow>
   cols (trait_frame rows) =
     [(''propertyName'', map (\<lambda>row. row ! 0) rows),
      (''propertyLabel'', map (\<lambda>row. row ! 1) rows),
      (''propertyDefinition'', map (\<lambda>row. row ! 2) rows),
      (''measurementUnit'', map (\<lambda>row. row ! 3) rows),
      (''propertyUrl'', map (\<lambda>row. row ! 4) rows)]"
  by (simp add: trait_frame_def zip_trait_columns)

lemma trait_frame_key:
  assumes "map_err trait_row td = Inr rows" "td \<noteq> []"
  shows "columns (trait_frame rows) = trait_columns"
    and "getitem (trait_frame rows) ''propertyName'' = Inr (map (\<lambda>kv. Str (fst kv)) td)"
proof -
  from assms have "rows \<noteq> []"
    using map_err_length [OF assms(1)] by auto
  then have c: "cols (trait_frame rows) =
     [(''propertyName'', map (\<lambda>row. row ! 0) rows),
      (''propertyLabel'', map (\<lambda>row. row ! 1) rows),
      (''propertyDefinition'', map (\<lambda>row. row ! 2) rows),
      (''measurementUnit'', map (\<lambda>row. row ! 3) rows),
      (''propertyUrl'', map (\<lambda>row. row ! 4) rows)]"
    by (rule cols_trait_frame)
  show "columns (trait_frame rows) = trait_columns"
    by (simp add: columns_def c trait_columns_def)
  show "getitem (trait_frame rows) ''propertyName'' = Inr (map (\<lambda>kv. Str (fst kv)) td)"
    by (simp add: getitem_def c trait_keys [OF assms(1)])
qed

lemma getitem_last_columns:
  assumes "a \<notin> fst ` set xs" "b \<notin> fst ` set xs" "a \<noteq> b"
  shows "getitem \<lparr>index = i, cols = xs @ [(a, va), (b, vb)]\<rparr> a = Inr va"
    and "getitem \<lparr>index = i, cols = xs @ [(a, va), (b, vb)]\<rparr> b = Inr vb"
proof -
  have "filter (\<lambda>cv. fst cv = a) xs = []" "filter (\<lambda>cv. fst cv = b) xs = []"
    using assms by (auto simp: filter_empty_conv)
  then show "getitem \<lparr>index = i, cols = xs @ [(a, va), (b, vb)]\<rparr> a = Inr va"
    and "getitem \<lparr>index = i, cols = xs @ [(a, va), (b, vb)]\<rparr> b = Inr vb"
    using assms(3) by (simp_all add: getitem_def)
qed

lemma length_concat_replicate_map:
  "length (concat (map (\<lambda>v. replicate n (f v)) xs)) = n * length xs"
  by (induction xs) simp_all

lemma measurement_melt_rows:
  assumes wf: "wf_table df"
    and td: "distinct (map fst trait_dict)"
    and rows: "map_err trait_row trait_dict = Inr trait_list"
    and ml: "measurement_list = filter (\<lambda>c. c \<in> set (map fst trait_dict)) (columns df)"
      "measurement_list \<noteq> []"
    and fresh: "set (columns df) \<inter> set (''measurementValue'' # trait_columns) = {}"
  shows "\<exists>t. measurement_attribute_preparation_try rt (Json trait_dict) df = Inr t \<and>
    len t = length (filter (\<lambda>x. \<not> (isna x \<or> x \<in> set invalid_values))
                     (concat (map (column_or_nan df) measurement_list)))"
proof -
  define nl where "nl = filter (\<lambda>c. c \<notin> set (map fst trait_dict)) (columns df)"
  define var_col where
    "var_col = concat (map (\<lambda>v. replicate (len df) (Str v)) measurement_list)"
  define vals where "vals = concat (map (column_or_nan df) measurement_list)"
  define ids where "ids =
    map (\<lambda>c. (c, concat (replicate (length measurement_list) (column_or_nan df c)))) nl"
  define melted where "melted =
    \<lparr>index = concat (replicate (length measurement_list) (index df)),
     cols = ids @ [(''propertyName'', var_col), (''measurementValue'', vals)]\<rparr>"
  have d: "distinct (columns df)"
    using wf by (simp add: wf_table_def)
  have f: "''measurementValue'' \<notin> set (columns df)" "''propertyName'' \<notin> set (columns df)"
    "''propertyLabel'' \<notin> set (columns df)" "''propertyDefinition'' \<notin> set (columns df)"
    "''measurementUnit'' \<notin> set (columns df)" "''propertyUrl'' \<notin> set (columns df)"
    using fresh by (auto simp: trait_columns_def)
  have sub: "set nl \<subseteq> set (columns df)" "set measurement_list \<subseteq> set (columns df)"
    by (auto simp: nl_def ml(1))
  have m: "melt df nl measurement_list ''propertyName'' ''measurementValue'' = Inr melted"
    unfolding melted_def ids_def var_col_def vals_def
    using d sub f(1) f(2) sub(1) by (intro melt_columns) auto
  have fi: "map fst ids = nl"
    by (simp add: ids_def comp_def)
  have cm: "columns melted = nl @ [''propertyName'', ''measurementValue'']"
    by (simp add: melted_def columns_def fi)
  have dn: "distinct nl"
    using d by (simp add: nl_def)
  have dm: "distinct (columns melted)"
    using dn sub(1) f(1) f(2) by (auto simp: cm)
  have "fst ` set ids = set nl"
    unfolding fi [symmetric] by simp
  then have nin: "''propertyName'' \<notin> fst ` set ids" "''measurementValue'' \<notin> fst ` set ids"
    using sub(1) f(1) f(2) by (simp_all add: subset_iff) blast+
  have gk: "getitem melted ''propertyName'' = Inr var_col"
    and gv: "getitem melted ''measurementValue'' = Inr vals"
    unfolding melted_def using nin by (simp_all add: getitem_last_columns)
  have ne: "trait_dict \<noteq> []"
    using ml by auto
  have ct: "columns (trait_frame trait_list) = trait_columns"
    and gt: "getitem (trait_frame trait_list) ''propertyName'' =
      Inr (map (\<lambda>kv. Str (fst kv)) trait_dict)"
    using trait_frame_key [OF rows ne] by simp_all
  have dk: "distinct (map (\<lambda>kv. Str (fst kv)) trait_dict)"
    using td by (simp add: distinct_map inj_on_def comp_def)
  have sk: "set var_col \<subseteq> set (map (\<lambda>kv. Str (fst kv)) trait_dict)"
    by (fastforce simp: var_col_def ml(1))
  have ov: "set (columns melted) \<inter> set (columns (trait_frame trait_list)) \<subseteq> {''propertyName''}"
    using sub(1) f by (auto simp: cm ct trait_columns_def)
  have dt: "distinct (columns (trait_frame trait_list))"
    by (simp add: ct trait_columns_def)
  have "length vals = len df * length measurement_list"
    unfolding vals_def using wf by (rule length_concat_columns)
  moreover have "length var_col = len df * length measurement_list"
    unfolding var_col_def by (rule length_concat_replicate_map)
  ultimately have lv: "length vals = length var_col"
    by simp
  from merge_left_unique [OF dm dt gk gt dk sk ov]
  obtain merged where mg: "merge_left melted (trait_frame trait_list) ''propertyName'' = Inr merged"
    and im: "index merged = [0..<length var_col]"
    and dmg: "distinct (columns merged)"
    and gm: "\<forall>c vs. getitem melted c = Inr vs \<and> length vs = length var_col \<longrightarrow>
      getitem merged c = Inr vs"
    by blast
  have gmv: "getitem merged ''measurementValue'' = Inr vals"
    using gm gv lv by blast
  have lm: "length vals = len merged"
    by (simp add: len_def im lv)
  from len_clean_keep_strings [OF dmg gmv lm, of rt]
  obtain clean where cl: "clean_and_infer_measurement_values rt merged True = Inr clean"
    and lc: "len clean = length (filter (\<lambda>x. \<not> (isna x \<or> x \<in> set invalid_values)) vals)"
    by blast
  from len_observation_id_generator [of rt clean "''observationId''"]
  obtain t where ob: "observation_id_generator rt clean ''observationId'' = Inr t"
    and lt: "len t = len clean"
    by blast
  have "measurement_attribute_preparation_try rt (Json trait_dict) df = Inr t"
    apply (simp only: measurement_attribute_preparation_try_def json_file.case Let_def)
    apply (simp only: ml(1) [symmetric] nl_def [symmetric])
    apply (simp add: ml(2) m rows mg cl ob)
    done
  then show ?thesis
    using lt lc by (simp add: vals_def)
qed

section \<open>Taxonomy: rows\<close>

lemma notin_filter_subset: "x \<notin> set xs \<Longrightarrow> x \<notin> set (filter p xs)"
  by simp

lemma taxonomy_melt_rows:
  assumes d: "distinct (columns df)"
    and r: "''taxonRank'' \<notin> set (columns df)"
    and t: "''taxon'' \<notin> set (columns df)"
    and tc: "taxonomy_columns = filter (\<lambda>c. c \<in> set taxonomy_list) (columns df)"
      "taxonomy_columns \<noteq> []"
  shows "\<exists>t. taxonomy_attribution_preparation_try (Json taxonomy_list) df = Inr t \<and>
    len t = len df * length taxonomy_columns"
proof -
  define ntc where "ntc = filter (\<lambda>c. c \<notin> set taxonomy_list) (columns df)"
  have s: "set ntc \<subseteq> set (columns df)" "set taxonomy_columns \<subseteq> set (columns df)"
    by (simp_all add: ntc_def tc(1))
  have n: "''taxonRank'' \<notin> set ntc"
    unfolding ntc_def using r by (rule notin_filter_subset)
  from len_melt [OF d s t n]
  obtain melted where m: "melt df ntc taxonomy_columns ''taxonRank'' ''taxon'' = Inr melted \<and>
    len melted = len df * length taxonomy_columns" ..
  have "taxonomy_attribution_preparation_try (Json taxonomy_list) df = Inr melted"
    apply (simp only: taxonomy_attribution_preparation_try_def json_file.case Let_def)
    apply (simp only: tc(1) [symmetric] ntc_def [symmetric])
    apply (simp add: r tc(2) m)
    done
  then show ?thesis
    using m by simp
qed

lemma len_pd_concat:
  "distinct (columns a) \<Longrightarrow> distinct (columns b) \<Longrightarrow>
   \<exists>t. pd_concat a b = Inr t \<and> len t = len a + len b"
  by (simp add: pd_concat_def len_def)

lemma len_rename: "len (rename df m) = len df"
  by (simp add: rename_def len_def)

lemma columns_rename:
  "columns (rename df m) =
     map (\<lambda>c. case map_of m c of None \<Rightarrow> c | Some new \<Rightarrow> new) (columns df)"
  by (simp add: rename_def columns_def comp_def)

lemma taxonomy_append_rows:
  assumes d: "distinct (columns df)"
    and r: "getitem df ''taxonRank'' = Inr ranks"
    and l: "str_lower ranks \<noteq> Inl AttributeError"
    and a: "''acceptedNameUsage'' \<in> set (columns df)"
    and f: "''temp_taxon'' \<notin> set (columns df)" "''temp_taxonRank'' \<notin> set (columns df)"
    and n: "''taxon'' \<notin> set taxonomy_list" "''taxonRank'' \<notin> set taxonomy_list"
    and tc: "taxonomy_columns = filter (\<lambda>c. c \<in> set taxonomy_list) (columns df)"
      "taxonomy_columns \<noteq> []"
  shows "\<exists>t. taxonomy_attribution_preparation_try (Json taxonomy_list) df = Inr t \<and>
    len t = len df * (length taxonomy_columns + 1)"
proof -
  define df1 where "df1 = setitem df ''taxonRank'' (map lower_cell ranks)"
  obtain names where names: "getitem df ''acceptedNameUsage'' = Inr names"
    using getitem_column [OF d a] ..
  define df2 where "df2 = setitem df1 ''taxon'' names"
  define ntc where "ntc = filter (\<lambda>c. c \<notin> set taxonomy_list) (columns df2)"
  have rc: "''taxonRank'' \<in> set (columns df)"
    using r by (rule getitem_in_columns)
  have sl: "str_lower ranks = Inr (map lower_cell ranks)"
    using l by (simp add: str_lower_def split: if_splits)
  have c1: "columns df1 = columns df"
    using rc by (simp add: df1_def columns_setitem)
  have d1: "distinct (columns df1)"
    using d by (simp add: c1)
  have g1: "getitem df1 ''acceptedNameUsage'' = Inr names"
    using d names by (simp add: df1_def getitem_setitem)
  have c2: "columns df2 =
      (if ''taxon'' \<in> set (columns df) then columns df else columns df @ [''taxon''])"
    by (simp add: df2_def columns_setitem c1)
  have d2: "distinct (columns df2)"
    unfolding df2_def using d1 by (rule distinct_setitem)
  have l2: "len df2 = len df"
    by (simp add: df2_def df1_def len_setitem)
  have t2: "filter (\<lambda>c. c \<in> set taxonomy_list) (columns df2) = taxonomy_columns"
    using n(1) by (simp add: c2 tc(1))
  have in2: "''taxon'' \<in> set (columns df2)" "''taxonRank'' \<in> set (columns df2)"
    using rc by (simp_all add: c2)
  have out2: "''temp_taxon'' \<notin> set (columns df2)" "''temp_taxonRank'' \<notin> set (columns df2)"
    using f by (simp_all add: c2)
  have s: "set ntc \<subseteq> set (columns df2)" "set taxonomy_columns \<subseteq> set (columns df2)"
    by (simp_all add: ntc_def t2 [symmetric])
  have o: "''temp_taxonRank'' \<notin> set ntc" "''temp_taxon'' \<notin> set ntc"
    unfolding ntc_def using out2 by (simp_all only: notin_filter_subset simp_thms)
  have i: "''taxon'' \<in> set ntc" "''taxonRank'' \<in> set ntc"
    using in2 n by (simp_all add: ntc_def)
  have dn: "distinct ntc"
    using d2 by (simp add: ntc_def)
  define k where "k = length taxonomy_columns"
  define var_col where
    "var_col = concat (map (\<lambda>v. replicate (len df2) (Str v)) taxonomy_columns)"
  define vals where "vals = concat (map (column_or_nan df2) taxonomy_columns)"
  define ids where "ids = map (\<lambda>c. (c, concat (replicate k (column_or_nan df2 c)))) ntc"
  define melted where "melted =
    \<lparr>index = concat (replicate k (index df2)),
     cols = ids @ [(''temp_taxonRank'', var_col), (''temp_taxon'', vals)]\<rparr>"
  have m: "melt df2 ntc taxonomy_columns ''temp_taxonRank'' ''temp_taxon'' = Inr melted"
    unfolding melted_def ids_def var_col_def vals_def k_def
    by (rule melt_columns [OF d2 s out2(1) o(1)])
  have fi: "map fst ids = ntc"
    by (simp add: ids_def comp_def)
  have cm: "columns melted = ntc @ [''temp_taxonRank'', ''temp_taxon'']"
    by (simp add: melted_def columns_def fi)
  have lm: "len melted = len df * k"
    by (simp add: melted_def len_def length_concat_replicate l2 [unfolded len_def] mult.commute)
  define melted1 where "melted1 = drop_columns_ignore melted [''taxon'', ''taxonRank'']"
  have dr: "drop_columns melted [''taxon'', ''taxonRank''] = Inr melted1"
    unfolding melted1_def using i by (intro drop_columns_present) (simp add: cm)
  define melted2 where "melted2 =
    rename melted1 [(''temp_taxonRank'', ''taxonRank''), (''temp_taxon'', ''taxon'')]"
  define rest where "rest = filter (\<lambda>c. c \<notin> set [''taxon'', ''taxonRank'']) ntc"
  have c1m: "columns melted1 = rest @ [''temp_taxonRank'', ''temp_taxon'']"
    by (simp add: melted1_def columns_drop_columns_ignore cm rest_def)
  have ro: "''temp_taxonRank'' \<notin> set rest" "''temp_taxon'' \<notin> set rest"
    unfolding rest_def using o by (simp_all only: notin_filter_subset simp_thms)
  have "map (\<lambda>c. case map_of [(''temp_taxonRank'', ''taxonRank''), (''temp_taxon'', ''taxon'')] c of
                    None \<Rightarrow> c | Some new \<Rightarrow> new) rest = rest"
    using ro by (intro map_idI) auto
  then have c2m: "columns melted2 = rest @ [''taxonRank'', ''taxon'']"
    by (simp add: melted2_def columns_rename c1m)
  have dm2: "distinct (columns melted2)"
    using dn by (simp add: c2m rest_def)
  have lm2: "len melted2 = len df * k"
    by (simp add: melted2_def melted1_def len_rename len_drop_columns_ignore lm)
  define df3 where "df3 = drop_columns_ignore df2 taxonomy_columns"
  have d3: "drop_columns df2 taxonomy_columns = Inr df3"
    unfolding df3_def using s(2) by (rule drop_columns_present)
  have dd3: "distinct (columns df3)"
    unfolding df3_def using d2 by (rule distinct_drop_columns_ignore)
  have l3: "len df3 = len df"
    by (simp add: df3_def len_drop_columns_ignore l2)
  from len_pd_concat [OF dd3 dm2]
  obtain t where t: "pd_concat df3 melted2 = Inr t \<and> len t = len df3 + len melted2" ..
  have "taxonomy_attribution_preparation_try (Json taxonomy_list) df = Inr t"
    apply (simp only: taxonomy_attribution_preparation_try_def json_file.case Let_def)
    apply (simp only: rc r sl sum.case if_True df1_def [symmetric])
    apply (simp only: c1 a g1 sum.case if_True df2_def [symmetric])
    apply (simp only: t2 ntc_def [symmetric])
    apply (simp add: tc(2) m dr melted2_def [symmetric] d3 t)
    done
  then show ?thesis
    using t by (simp add: l3 lm2 k_def)
qed

section \<open>The rows of a melted table\<close>

text \<open>
  C1. The number of rows after a melt. With at least one measurement column, with the
  trait dictionary loaded and complete, and with a table that has none of the columns the
  function creates, \<^verbatim>\<open>measurement_attribute_preparation\<close> returns one row for every pair
  of an input row and a measurement column whose value is neither null nor one of the
  placeholder values: rows are dropped one by one, not a column at a time, so the count
  is at most the number of input rows times the number of measurement columns and need
  not be a multiple of the number of input rows. Without a \<^verbatim>\<open>taxonRank\<close> column,
  \<^verbatim>\<open>taxonomy_attribution_preparation\<close> returns the input rows once for every taxonomy
  column. With a \<^verbatim>\<open>taxonRank\<close> column of strings and an \<^verbatim>\<open>acceptedNameUsage\<close> column it
  returns the input rows followed by the melted rows, that is the input rows once more
  than there are taxonomy columns.
\<close>

theorem melt_row_counts:
  "(wf_table df \<and> distinct (map fst trait_dict) \<and>
    map_err trait_row trait_dict = Inr trait_list \<and>
    measurement_list = filter (\<lambda>c. c \<in> set (map fst trait_dict)) (columns df) \<and>
    measurement_list \<noteq> [] \<and>
    set (columns df) \<inter> set (''measurementValue'' # trait_columns) = {} \<longrightarrow>
    (\<exists>t value_data.
       measurement_attribute_preparation_try rt (Json trait_dict) df = Inr t \<and>
       measurement_attribute_preparation rt (Json trait_dict) df = Inr t \<and>
       map_err (getitem df) measurement_list = Inr value_data \<and>
       len t = length (filter (\<lambda>x. \<not> (isna x \<or> x \<in> set invalid_values))
                         (concat value_data)) \<and>
       len t \<le> len df * length measurement_list)) \<and>
   (distinct (columns df) \<and> ''taxonRank'' \<notin> set (columns df) \<and>
    ''taxon'' \<notin> set (columns df) \<and>
    taxonomy_columns = filter (\<lambda>c. c \<in> set taxonomy_list) (columns df) \<and>
    taxonomy_columns \<noteq> [] \<longrightarrow>
    (\<exists>t. taxonomy_attribution_preparation (Json taxonomy_list) df = Inr (Some t) \<and>
       len t = len df * length taxonomy_columns)) \<and>
   (distinct (columns df) \<and> getitem df ''taxonRank'' = Inr ranks \<and>
    str_lower ranks \<noteq> Inl AttributeError \<and>
    ''acceptedNameUsage'' \<in> set (columns df) \<and>
    ''temp_taxon'' \<notin> set (columns df) \<and> ''temp_taxonRank'' \<notin> set (columns df) \<and>
    ''taxon'' \<notin> set taxonomy_list \<and> ''taxonRank'' \<notin> set taxonomy_list \<and>
    taxonomy_columns = filter (\<lambda>c. c \<in> set taxonomy_list) (columns df) \<and>
    taxonomy_columns \<noteq> [] \<longrightarrow>
    (\<exists>t. taxonomy_attribution_preparation (Json taxonomy_list) df = Inr (Some t) \<and>
       len t = len df * (length taxonomy_columns + 1)))"
proof (intro conjI impI; elim conjE)
  assume wf: "wf_table df" and td: "distinct (map fst trait_dict)"
    and rows: "map_err trait_row trait_dict = Inr trait_list"
    and ml: "measurement_list = filter (\<lambda>c. c \<in> set (map fst trait_dict)) (columns df)"
      "measurement_list \<noteq> []"
    and fresh: "set (columns df) \<inter> set (''measurementValue'' # trait_columns) = {}"
  let ?data = "map (column_or_nan df) measurement_list"
  from measurement_melt_rows [OF wf td rows ml fresh, of rt]
  obtain t where t: "measurement_attribute_preparation_try rt (Json trait_dict) df = Inr t \<and>
    len t = length (filter (\<lambda>x. \<not> (isna x \<or> x \<in> set invalid_values)) (concat ?data))" ..
  have r: "measurement_attribute_preparation rt (Json trait_dict) df = Inr t"
    using t by (simp add: measurement_attribute_preparation_def)
  have d: "distinct (columns df)"
    using wf by (simp add: wf_table_def)
  have "set measurement_list \<subseteq> set (columns df)"
    by (simp add: ml(1))
  with d have g: "map_err (getitem df) measurement_list = Inr ?data"
    by (rule map_err_getitem)
  have "length (filter (\<lambda>x. \<not> (isna x \<or> x \<in> set invalid_values)) (concat ?data)) \<le>
      length (concat ?data)"
    by (rule length_filter_le)
  also have "\<dots> = len df * length measurement_list"
    using wf by (rule length_concat_columns)
  finally have le: "len t \<le> len df * length measurement_list"
    using t by simp
  show "\<exists>t value_data.
       measurement_attribute_preparation_try rt (Json trait_dict) df = Inr t \<and>
       measurement_attribute_preparation rt (Json trait_dict) df = Inr t \<and>
       map_err (getitem df) measurement_list = Inr value_data \<and>
       len t = length (filter (\<lambda>x. \<not> (isna x \<or> x \<in> set invalid_values))
                         (concat value_data)) \<and>
       len t \<le> len df * length measurement_list"
    using t r g le by (intro exI [of _ t] exI [of _ ?data] conjI) simp_all
next
  assume d: "distinct (columns df)" and r: "''taxonRank'' \<notin> set (columns df)"
    and x: "''taxon'' \<notin> set (columns df)"
    and tc: "taxonomy_columns = filter (\<lambda>c. c \<in> set taxonomy_list) (columns df)"
      "taxonomy_columns \<noteq> []"
  from taxonomy_melt_rows [OF d r x tc]
  obtain t where "taxonomy_attribution_preparation_try (Json taxonomy_list) df = Inr t \<and>
    len t = len df * length taxonomy_columns" ..
  then show "\<exists>t. taxonomy_attribution_preparation (Json taxonomy_list) df = Inr (Some t) \<and>
       len t = len df * length taxonomy_columns"
    by (intro exI [of _ t]) (simp add: taxonomy_attribution_preparation_def)
next
  assume d: "distinct (columns df)" and r: "getitem df ''taxonRank'' = Inr ranks"
    and l: "str_lower ranks \<noteq> Inl AttributeError"
    and a: "''acceptedNameUsage'' \<in> set (columns df)"
    and f: "''temp_taxon'' \<notin> set (columns df)" "''temp_taxonRank'' \<notin> set (columns df)"
    and n: "''taxon'' \<notin> set taxonomy_list" "''taxonRank'' \<notin> set taxonomy_list"
    and tc: "taxonomy_columns = filter (\<lambda>c. c \<in> set taxonomy_list) (columns df)"
      "taxonomy_columns \<noteq> []"
  from taxonomy_append_rows [OF d r l a f n tc]
  obtain t where "taxonomy_attribution_preparation_try (Json taxonomy_list) df = Inr t \<and>
    len t = len df * (length taxonomy_columns + 1)" ..
  then show "\<exists>t. taxonomy_attribution_preparation (Json taxonomy_list) df = Inr (Some t) \<and>
       len t = len df * (length taxonomy_columns + 1)"
    by (intro exI [of _ t]) (simp add: taxonomy_attribution_preparation_def)
qed

theorem melt_row_counts_witness:
  "wf_table measured_table \<and>
   filter (\<lambda>c. c \<in> set (map fst example_traits)) (columns measured_table) = [''height''] \<and>
   len measured_table = 2 \<and>
   (\<exists>t. measurement_attribute_preparation example_runtime (Json example_traits) measured_table =
          Inr t \<and> len t = 1) \<and>
   filter (\<lambda>c. c \<in> set example_ranks) (columns taxa_table) = [''family'', ''genus''] \<and>
   len taxa_table = 2 \<and>
   (\<exists>t. taxonomy_attribution_preparation (Json example_ranks) taxa_table = Inr (Some t) \<and>
        len t = 4) \<and>
   filter (\<lambda>c. c \<in> set example_ranks) (columns named_table) = [''family''] \<and>
   len named_table = 2 \<and>
   (\<exists>t. taxonomy_attribution_preparation (Json example_ranks) named_table = Inr (Some t) \<and>
        len t = 4)"
proof -
  have wf: "wf_table measured_table"
    by code_simp
  have td: "distinct (map fst example_traits)"
    by code_simp
  have rows: "map_err trait_row example_traits =
      Inr [[Str ''height'', Str ''Height'', Str ''how tall'', Str ''cm'',
            Str ''http://example.org/height''],
           [Str ''colour'', Str ''Colour'', PyNone, PyNone, Str ''http://example.org/colour'']]"
    by code_simp
  have ml: "filter (\<lambda>c. c \<in> set (map fst example_traits)) (columns measured_table) = [''height'']"
    by code_simp
  have fresh: "set (columns measured_table) \<inter> set (''measurementValue'' # trait_columns) = {}"
    by code_simp
  have lm: "len measured_table = 2"
    by code_simp
  have vd: "map_err (getitem measured_table) [''height''] = Inr [[Str ''12'', Float FNaN]]"
    by code_simp
  from melt_row_counts [where df = measured_table and trait_dict = example_traits
      and measurement_list = "[''height'']" and rt = example_runtime, THEN conjunct1, rule_format,
      OF conjI [OF wf conjI [OF td conjI [OF rows conjI [OF ml [symmetric] conjI [OF _ fresh]]]]]]
  obtain t value_data where m:
    "measurement_attribute_preparation example_runtime (Json example_traits) measured_table =
       Inr t"
    "map_err (getitem measured_table) [''height''] = Inr value_data"
    "len t = length (filter (\<lambda>x. \<not> (isna x \<or> x \<in> set invalid_values)) (concat value_data))"
    by auto
  from m(2) vd have "value_data = [[Str ''12'', Float FNaN]]"
    by simp
  with m(3) have "len t = 1"
    by (simp add: invalid_values_def)
  with m(1) have a: "\<exists>t. measurement_attribute_preparation example_runtime (Json example_traits)
      measured_table = Inr t \<and> len t = 1"
    by (intro exI [of _ t]) simp
  have d2: "distinct (columns taxa_table)"
    by code_simp
  have r2: "''taxonRank'' \<notin> set (columns taxa_table)" "''taxon'' \<notin> set (columns taxa_table)"
    by code_simp+
  have tc2: "filter (\<lambda>c. c \<in> set example_ranks) (columns taxa_table) = [''family'', ''genus'']"
    by code_simp
  have l2: "len taxa_table = 2"
    by code_simp
  from melt_row_counts [where df = taxa_table and taxonomy_list = example_ranks
      and taxonomy_columns = "[''family'', ''genus'']", THEN conjunct2, THEN conjunct1, rule_format,
      OF conjI [OF d2 conjI [OF r2(1) conjI [OF r2(2) conjI [OF tc2 [symmetric]]]]]]
  have b: "\<exists>t. taxonomy_attribution_preparation (Json example_ranks) taxa_table = Inr (Some t) \<and>
      len t = 4"
    by (simp add: l2)
  have d3: "distinct (columns named_table)"
    by code_simp
  have g3: "getitem named_table ''taxonRank'' = Inr [Str ''Species'', Str ''Genus'']"
    by code_simp
  have s3: "str_lower [Str ''Species'', Str ''Genus''] \<noteq> Inl AttributeError"
    by (simp add: str_lower_def)
  have a3: "''acceptedNameUsage'' \<in> set (columns named_table)"
    by code_simp
  have f3: "''temp_taxon'' \<notin> set (columns named_table)"
    "''temp_taxonRank'' \<notin> set (columns named_table)"
    "''taxon'' \<notin> set example_ranks" "''taxonRank'' \<notin> set example_ranks"
    by code_simp+
  have tc3: "filter (\<lambda>c. c \<in> set example_ranks) (columns named_table) = [''family'']"
    by code_simp
  have l3: "len named_table = 2"
    by code_simp
  from melt_row_counts [where df = named_table and taxonomy_list = example_ranks
      and taxonomy_columns = "[''family'']" and ranks = "[Str ''Species'', Str ''Genus'']",
      THEN conjunct2, THEN conjunct2, rule_format,
      OF conjI [OF d3 conjI [OF g3 conjI [OF s3 conjI [OF a3 conjI [OF f3(1) conjI [OF f3(2)
        conjI [OF f3(3) conjI [OF f3(4) conjI [OF tc3 [symmetric]]]]]]]]]]]
  have c: "\<exists>t. taxonomy_attribution_preparation (Json example_ranks) named_table = Inr (Some t) \<and>
      len t = 4"
    by (simp add: l3)
  show ?thesis
    by (intro conjI; (rule wf ml lm a tc2 l2 b tc3 l3 c))
qed

text \<open>
  The rows of the result are not the rows of the input times a number of columns: of the
  two rows of a table with one measurement column, the one without a value is dropped and
  one row is left; and a table with a \<^verbatim>\<open>taxonRank\<close> column and one taxonomy column comes
  back with twice its rows.
\<close>

theorem melt_row_count_not_a_multiple:
  "len measured_table = 2 \<and>
   filter (\<lambda>c. c \<in> set (map fst example_traits)) (columns measured_table) = [''height''] \<and>
   measurement_attribute_preparation example_runtime (Json example_traits) measured_table =
     Inr \<lparr>index = [0],
          cols = [(''site'', [Str ''A'']), (''propertyName'', [Str ''height'']),
                  (''measurementValue'', [Float (FNum 12)]),
                  (''propertyLabel'', [Str ''Height'']),
                  (''propertyDefinition'', [Str ''how tall'']),
                  (''measurementUnit'', [Str ''cm'']),
                  (''propertyUrl'', [Str ''http://example.org/height'']),
                  (''observationId'', [Str ''0f8fad5b-d9cb-4000''])]\<rparr> \<and>
   (\<forall>k. len \<lparr>index = [0],
          cols = [(''site'', [Str ''A'']), (''propertyName'', [Str ''height'']),
                  (''measurementValue'', [Float (FNum 12)]),
                  (''propertyLabel'', [Str ''Height'']),
                  (''propertyDefinition'', [Str ''how tall'']),
                  (''measurementUnit'', [Str ''cm'']),
                  (''propertyUrl'', [Str ''http://example.org/height'']),
                  (''observationId'', [Str ''0f8fad5b-d9cb-4000''])]\<rparr> \<noteq>
        len measured_table * k) \<and>
   len named_table = 2 \<and>
   filter (\<lambda>c. c \<in> set example_ranks) (columns named_table) = [''family''] \<and>
   taxonomy_attribution_preparation (Json example_ranks) named_table =
     Inr (Some \<lparr>index = [0, 1, 2, 3],
                cols = [(''acceptedNameUsage'',
                           [Str ''Poa annua'', Str ''Fagus'', Str ''Poa annua'', Str ''Fagus'']),
                        (''taxonRank'',
                           [Str ''species'', Str ''genus'', Str ''family'', Str ''family'']),
                        (''taxon'',
                           [Str ''Poa annua'', Str ''Fagus'', Str ''Poaceae'',
                            Str ''Fagaceae''])]\<rparr>)"
proof -
  have 1: "len measured_table = 2"
    by code_simp
  have 2: "filter (\<lambda>c. c \<in> set (map fst example_traits)) (columns measured_table) = [''height'']"
    by code_simp
  have 3: "measurement_attribute_preparation example_runtime (Json example_traits) measured_table =
     Inr \<lparr>index = [0],
          cols = [(''site'', [Str ''A'']), (''propertyName'', [Str ''height'']),
                  (''measurementValue'', [Float (FNum 12)]),
                  (''propertyLabel'', [Str ''Height'']),
                  (''propertyDefinition'', [Str ''how tall'']),
                  (''measurementUnit'', [Str ''cm'']),
                  (''propertyUrl'', [Str ''http://example.org/height'']),
                  (''observationId'', [Str ''0f8fad5b-d9cb-4000''])]\<rparr>"
    by code_simp
  have 4: "\<forall>k. len \<lparr>index = [0],
          cols = [(''site'', [Str ''A'']), (''propertyName'', [Str ''height'']),
                  (''measurementValue'', [Float (FNum 12)]),
                  (''propertyLabel'', [Str ''Height'']),
                  (''propertyDefinition'', [Str ''how tall'']),
                  (''measurementUnit'', [Str ''cm'']),
                  (''propertyUrl'', [Str ''http://example.org/height'']),
                  (''observationId'', [Str ''0f8fad5b-d9cb-4000''])]\<rparr> \<noteq>
        len measured_table * k"
    by (simp add: 1) (simp add: len_def)
  have 5: "len named_table = 2"
    by code_simp
  have 6: "filter (\<lambda>c. c \<in> set example_ranks) (columns named_table) = [''family'']"
    by code_simp
  have 7: "taxonomy_attribution_preparation (Json example_ranks) named_table =
     Inr (Some \<lparr>index = [0, 1, 2, 3],
                cols = [(''acceptedNameUsage'',
                           [Str ''Poa annua'', Str ''Fagus'', Str ''Poa annua'', Str ''Fagus'']),
                        (''taxonRank'',
                           [Str ''species'', Str ''genus'', Str ''family'', Str ''family'']),
                        (''taxon'',
                           [Str ''Poa annua'', Str ''Fagus'', Str ''Poaceae'',
                            Str ''Fagaceae''])]\<rparr>)"
    by code_simp
  show ?thesis
    by (intro conjI; (rule 1 2 3 4 5 6 7))
qed

end
